theory Spec2Isabelle
  imports Complex_Main "HOL-Library.Word"
begin

section \<open>The peak meter of libs/ardour/meter.cc\<close>

text \<open>
  A shallow embedding of \<^verbatim>\<open>ARDOUR::PeakMeter\<close> (libs/ardour/meter.cc). The object is a
  record of its fields, every member function takes the record and returns the updated
  one. A \<^verbatim>\<open>std::vector\<close> is a list; reading or writing a vector outside its
  size (undefined behaviour in C++), \<^verbatim>\<open>pop_back\<close> on an empty vector and a failed
  \<^verbatim>\<open>assert\<close> are values of the type \<open>error\<close>, so a member function that
  can reach one returns \<open>error + state\<close>.
\<close>

subsection \<open>Float values\<close>

text \<open>
  A \<^verbatim>\<open>float\<close> that is a number is an extended real: a finite value or one of the two
  infinities (\<^verbatim>\<open>std::numeric_limits<float>::infinity()\<close>). On numbers \<open>\<le>\<close> and
  \<open><\<close> are the comparisons of C and \<open>max\<close> is \<^verbatim>\<open>std::max\<close>; all three are
  exact in floating point. The raw values, the maxima, the samples and the levels in dB
  are numbers.
\<close>

datatype cfloat = MInf | Fin real | PInf

instantiation cfloat :: linorder
begin

fun less_eq_cfloat :: "cfloat \<Rightarrow> cfloat \<Rightarrow> bool" where
  "less_eq_cfloat MInf y = True"
| "less_eq_cfloat (Fin a) MInf = False"
| "less_eq_cfloat (Fin a) (Fin b) = (a \<le> b)"
| "less_eq_cfloat (Fin a) PInf = True"
| "less_eq_cfloat PInf MInf = False"
| "less_eq_cfloat PInf (Fin b) = False"
| "less_eq_cfloat PInf PInf = True"

fun less_cfloat :: "cfloat \<Rightarrow> cfloat \<Rightarrow> bool" where
  "less_cfloat MInf MInf = False"
| "less_cfloat MInf (Fin b) = True"
| "less_cfloat MInf PInf = True"
| "less_cfloat (Fin a) MInf = False"
| "less_cfloat (Fin a) (Fin b) = (a < b)"
| "less_cfloat (Fin a) PInf = True"
| "less_cfloat PInf y = False"

instance
proof
  fix x y z :: cfloat
  show "(x < y) = (x \<le> y \<and> \<not> y \<le> x)"
    by (cases x; cases y) auto
  show "x \<le> x"
    by (cases x) auto
  show "x \<le> y \<Longrightarrow> y \<le> z \<Longrightarrow> x \<le> z"
    by (cases x; cases y; cases z) auto
  show "x \<le> y \<Longrightarrow> y \<le> x \<Longrightarrow> x = y"
    by (cases x; cases y) auto
  show "x \<le> y \<or> y \<le> x"
    by (cases x; cases y) auto
qed

end

text \<open>\<^verbatim>\<open>minus_infinity()\<close>, the sentinel of a level that was never set.\<close>

definition minus_infinity :: cfloat where
  "minus_infinity = MInf"

text \<open>
  A \<^verbatim>\<open>float\<close> that can be NaN. The falloff of \<^verbatim>\<open>PeakMeter::meter\<close> computes
  in floating point and stores what it computes in the visible level, which is the one
  place of the meter where a NaN can arise. A comparison with a NaN is false;
  \<^verbatim>\<open>std::max (a, b)\<close> is \<^verbatim>\<open>(a < b) ? b : a\<close>.
\<close>

datatype nfloat = NaN | Num cfloat

fun nless :: "nfloat \<Rightarrow> nfloat \<Rightarrow> bool" where
  "nless (Num a) (Num b) = (a < b)"
| "nless NaN y = False"
| "nless (Num a) NaN = False"

definition nmax :: "nfloat \<Rightarrow> nfloat \<Rightarrow> nfloat" where
  "nmax a b = (if nless a b then b else a)"

text \<open>
  The arithmetic of the platform is a parameter: the product and the difference of two
  \<^verbatim>\<open>float\<close>s and the square root of one as the machine computes and rounds them, the
  \<^verbatim>\<open>float\<close>s that the literals \<^verbatim>\<open>0.01f\<close>, \<^verbatim>\<open>0.12f\<close> and \<^verbatim>\<open>0.0002f\<close>
  denote, the rounding of an exact quotient or sum to a \<^verbatim>\<open>double\<close>, and the
  conversion of a \<^verbatim>\<open>double\<close> to a \<^verbatim>\<open>float\<close> (the last two on finite values
  that stay finite). Nothing is assumed of them but what a theorem states.
\<close>

record float_arith =
  fl_mul :: "nfloat \<Rightarrow> nfloat \<Rightarrow> nfloat"
  fl_sub :: "nfloat \<Rightarrow> nfloat \<Rightarrow> nfloat"
  fl_sqrt :: "nfloat \<Rightarrow> nfloat"
  fl_0_01 :: real
  fl_0_12 :: real
  fl_0_0002 :: real
  to_double :: "real \<Rightarrow> real"
  to_float :: "real \<Rightarrow> real"

text \<open>\<^verbatim>\<open>fabsf\<close>.\<close>

fun fabs :: "cfloat \<Rightarrow> cfloat" where
  "fabs MInf = PInf"
| "fabs (Fin x) = Fin \<bar>x\<bar>"
| "fabs PInf = PInf"

subsection \<open>Vectors, errors and loops\<close>

text \<open>
  \<open>OutOfRange\<close>: a vector is read, written or popped outside its size.
  \<open>AssertionFailed\<close>: an \<^verbatim>\<open>assert\<close> fails.
\<close>

datatype error = OutOfRange | AssertionFailed

definition bindE :: "error + 'a \<Rightarrow> ('a \<Rightarrow> error + 'b) \<Rightarrow> error + 'b" where
  "bindE m f = (case m of Inl e \<Rightarrow> Inl e | Inr x \<Rightarrow> f x)"

text \<open>\<^verbatim>\<open>v[i]\<close> as a read and as a write; outside the vector both are an error.\<close>

definition vec_at :: "'a list \<Rightarrow> nat \<Rightarrow> error + 'a" where
  "vec_at v i = (if i < length v then Inr (v ! i) else Inl OutOfRange)"

definition vec_put :: "'a list \<Rightarrow> nat \<Rightarrow> 'a \<Rightarrow> error + 'a list" where
  "vec_put v i x = (if i < length v then Inr (v[i := x]) else Inl OutOfRange)"

text \<open>
  \<^verbatim>\<open>for (i = a; i < b; ++i) body\<close> is \<open>for_loop [a..<b] body\<close>: the body runs on
  each index in turn and the first error ends the loop.
\<close>

fun for_loop :: "nat list \<Rightarrow> (nat \<Rightarrow> 's \<Rightarrow> error + 's) \<Rightarrow> 's \<Rightarrow> error + 's" where
  "for_loop [] body s = Inr s"
| "for_loop (i # is) body s =
     (case body i s of Inl e \<Rightarrow> Inl e | Inr s' \<Rightarrow> for_loop is body s')"

text \<open>
  The vector a counting loop leaves when round \<open>j\<close> writes \<open>g j\<close> at index \<open>j\<close>:
  after the rounds from \<open>a\<close> up to \<open>i\<close> (not included).
\<close>

definition tab :: "nat \<Rightarrow> nat \<Rightarrow> (nat \<Rightarrow> 'a) \<Rightarrow> 'a list \<Rightarrow> 'a list" where
  "tab a i g v = map (\<lambda>j. if a \<le> j \<and> j < i then g j else v ! j) [0..<length v]"

subsection \<open>What meter.cc takes from its headers\<close>

text \<open>
  Modelled from the spec: \<^verbatim>\<open>ChanCount\<close> (ardour/chan_count.h, not among the sources).
  The spec's channel layout: a count of MIDI channels followed by a count of audio
  channels, the total being their sum. The counts and the total are \<^verbatim>\<open>uint32_t\<close>
  (meter.cc stores them in variables of that type): the counts are words of 32 bits,
  \<^verbatim>\<open>n_midi()\<close> and \<^verbatim>\<open>n_audio()\<close> read them, and \<^verbatim>\<open>n_total()\<close> is their sum
  in 32 bits, which wraps around at \<open>2 ^ 32\<close>.
\<close>

record ChanCount =
  midi_count :: "32 word"
  audio_count :: "32 word"

definition n_midi :: "ChanCount \<Rightarrow> nat" where
  "n_midi c = unat (midi_count c)"

definition n_audio :: "ChanCount \<Rightarrow> nat" where
  "n_audio c = unat (audio_count c)"

definition n_total :: "ChanCount \<Rightarrow> nat" where
  "n_total c = unat (midi_count c + audio_count c)"

text \<open>
  Modelled from the spec: the enumeration \<^verbatim>\<open>MeterType\<close> (ardour/types.h, not among the
  sources), a bitmask with one bit for each standard. A mask is the set of its bits:
  \<^verbatim>\<open>t & (A | B)\<close> is true when \<open>t \<inter> {A, B} \<noteq> {}\<close>, and a \<^verbatim>\<open>case A:\<close> label
  of a \<^verbatim>\<open>switch (t)\<close> is taken when \<open>t = {A}\<close>.
\<close>

datatype MeterBit =
    MeterMaxSignal | MeterMaxPeak | MeterPeak
  | MeterKrms | MeterK20 | MeterK14 | MeterK12
  | MeterIEC1DIN | MeterIEC1NOR | MeterIEC2BBC | MeterIEC2EBU | MeterVU

type_synonym MeterType = "MeterBit set"

text \<open>
  The four ballistics classes (\<^verbatim>\<open>Kmeterdsp\<close>, \<^verbatim>\<open>Iec1ppmdsp\<close>, \<^verbatim>\<open>Iec2ppmdsp\<close>,
  \<^verbatim>\<open>Vumeterdsp\<close>) are not among the sources. Each is a parameter: a type \<open>'u\<close> of
  unit states with the state a constructor leaves, and the three member functions the
  meter calls. A vector of pointers to units, each allocated by its own \<^verbatim>\<open>new\<close>,
  is the list of the units' states.
\<close>

type_synonym Sample = cfloat

record 'u dsp =
  dsp_new :: 'u
  dsp_reset :: "'u \<Rightarrow> 'u"
  dsp_process :: "Sample list \<Rightarrow> nat \<Rightarrow> 'u \<Rightarrow> 'u"
  dsp_read :: "'u \<Rightarrow> cfloat"

record 'u dsps =
  Kmeterdsp :: "'u dsp"
  Iec1ppmdsp :: "'u dsp"
  Iec2ppmdsp :: "'u dsp"
  Vumeterdsp :: "'u dsp"

subsection \<open>The object\<close>

record 'u PeakMeter =
  active :: bool
  pending_active :: bool
  meter_type :: MeterType
  current_meters :: ChanCount
  peak_signal :: "cfloat list"
  visible_peak_power :: "nfloat list"
  max_peak_signal :: "cfloat list"
  max_peak_power :: "cfloat list"
  kmeter :: "'u list"
  iec1meter :: "'u list"
  iec2meter :: "'u list"
  vumeter :: "'u list"

text \<open>
  The constructor: the vectors are empty, the type is \<^verbatim>\<open>MeterPeak\<close>,
  \<^verbatim>\<open>_pending_active\<close> is set. \<^verbatim>\<open>_active\<close> and \<^verbatim>\<open>current_meters\<close> are
  initialised by the base class and by \<^verbatim>\<open>ChanCount\<close>'s constructor (neither among
  the sources): not active, no channels.
\<close>

definition PeakMeter_new :: "'u PeakMeter" where
  "PeakMeter_new =
     \<lparr> active = False, pending_active = True, meter_type = {MeterPeak},
       current_meters = \<lparr> midi_count = 0, audio_count = 0 \<rparr>,
       peak_signal = [], visible_peak_power = [], max_peak_signal = [],
       max_peak_power = [], kmeter = [], iec1meter = [], iec2meter = [], vumeter = [] \<rparr>"

subsection \<open>set\_type\<close>

text \<open>
  \<^verbatim>\<open>for (n = 0; n < n_audio; ++n) v[n]->reset();\<close> on one vector of units.
\<close>

definition unit_reset :: "'u dsp \<Rightarrow> 'u list \<Rightarrow> nat \<Rightarrow> error + 'u list" where
  "unit_reset d v n = bindE (vec_at v n) (\<lambda>u. vec_put v n (dsp_reset d u))"

definition reset_units :: "'u dsp \<Rightarrow> nat \<Rightarrow> 'u list \<Rightarrow> error + 'u list" where
  "reset_units d na v = for_loop [0..<na] (\<lambda>n v. unit_reset d v n) v"

definition K_bits :: MeterType where
  "K_bits = {MeterKrms, MeterK20, MeterK14, MeterK12}"

definition IEC1_bits :: MeterType where
  "IEC1_bits = {MeterIEC1DIN, MeterIEC1NOR}"

definition IEC2_bits :: MeterType where
  "IEC2_bits = {MeterIEC2BBC, MeterIEC2EBU}"

definition VU_bits :: MeterType where
  "VU_bits = {MeterVU}"

text \<open>
  \<^verbatim>\<open>PeakMeter::set_type\<close>. The signal \<^verbatim>\<open>TypeChanged\<close> it emits at the end changes
  no field of the meter and is not modelled.
\<close>

definition set_type :: "'u dsps \<Rightarrow> 'u PeakMeter \<Rightarrow> MeterType \<Rightarrow> error + 'u PeakMeter" where
  "set_type D s t =
     (if t = meter_type s then Inr s
      else
        let s = s\<lparr>meter_type := t\<rparr>;
            n_a = n_audio (current_meters s) in
        bindE (if t \<inter> K_bits \<noteq> {}
               then bindE (reset_units (Kmeterdsp D) n_a (kmeter s)) (\<lambda>v. Inr (s\<lparr>kmeter := v\<rparr>))
               else Inr s) (\<lambda>s.
        bindE (if t \<inter> IEC1_bits \<noteq> {}
               then bindE (reset_units (Iec1ppmdsp D) n_a (iec1meter s)) (\<lambda>v. Inr (s\<lparr>iec1meter := v\<rparr>))
               else Inr s) (\<lambda>s.
        bindE (if t \<inter> IEC2_bits \<noteq> {}
               then bindE (reset_units (Iec2ppmdsp D) n_a (iec2meter s)) (\<lambda>v. Inr (s\<lparr>iec2meter := v\<rparr>))
               else Inr s) (\<lambda>s.
        (if t \<inter> VU_bits \<noteq> {}
               then bindE (reset_units (Vumeterdsp D) n_a (vumeter s)) (\<lambda>v. Inr (s\<lparr>vumeter := v\<rparr>))
               else Inr s)))))"

subsection \<open>reset and reset\_max\<close>

text \<open>One round of the second loop of \<^verbatim>\<open>PeakMeter::reset\<close>: the four units of channel \<open>n\<close>.\<close>

definition reset_body :: "'u dsps \<Rightarrow> nat \<Rightarrow> 'u PeakMeter \<Rightarrow> error + 'u PeakMeter" where
  "reset_body D n s =
     bindE (unit_reset (Kmeterdsp D) (kmeter s) n) (\<lambda>k.
     bindE (unit_reset (Iec1ppmdsp D) (iec1meter s) n) (\<lambda>i1.
     bindE (unit_reset (Iec2ppmdsp D) (iec2meter s) n) (\<lambda>i2.
     bindE (unit_reset (Vumeterdsp D) (vumeter s) n) (\<lambda>vu.
     Inr (s\<lparr>kmeter := k, iec1meter := i1, iec2meter := i2, vumeter := vu\<rparr>)))))"

definition zero_peak :: "nat \<Rightarrow> 'u PeakMeter \<Rightarrow> error + 'u PeakMeter" where
  "zero_peak i s = bindE (vec_put (peak_signal s) i (Fin 0)) (\<lambda>v. Inr (s\<lparr>peak_signal := v\<rparr>))"

text \<open>\<^verbatim>\<open>PeakMeter::reset\<close>.\<close>

definition reset :: "'u dsps \<Rightarrow> 'u PeakMeter \<Rightarrow> error + 'u PeakMeter" where
  "reset D s =
     bindE (for_loop [0..<length (peak_signal s)] zero_peak s) (\<lambda>s.
     for_loop [0..<length (kmeter s)] (reset_body D) s)"

definition reset_max_body1 :: "nat \<Rightarrow> 'u PeakMeter \<Rightarrow> error + 'u PeakMeter" where
  "reset_max_body1 i s =
     bindE (vec_put (max_peak_power s) i MInf) (\<lambda>p.
     bindE (vec_put (max_peak_signal s) i (Fin 0)) (\<lambda>g.
     Inr (s\<lparr>max_peak_power := p, max_peak_signal := g\<rparr>)))"

definition reset_max_body2 :: "nat \<Rightarrow> nat \<Rightarrow> 'u PeakMeter \<Rightarrow> error + 'u PeakMeter" where
  "reset_max_body2 nm n s =
     bindE (vec_put (visible_peak_power s) n (if n < nm then Num (Fin 0) else Num MInf)) (\<lambda>v.
     Inr (s\<lparr>visible_peak_power := v\<rparr>))"

text \<open>\<^verbatim>\<open>PeakMeter::reset_max\<close>.\<close>

definition reset_max :: "'u PeakMeter \<Rightarrow> error + 'u PeakMeter" where
  "reset_max s =
     bindE (for_loop [0..<length (max_peak_power s)] reset_max_body1 s) (\<lambda>s.
     let nm = min (length (peak_signal s)) (n_midi (current_meters s)) in
     for_loop [0..<length (peak_signal s)] (reset_max_body2 nm) s)"

subsection \<open>Reconfiguration\<close>

text \<open>
  The four \<^verbatim>\<open>while\<close> loops of \<^verbatim>\<open>PeakMeter::reset_max_channels\<close>. A round of a
  shrinking loop pops four vectors and is led by the size of the first alone:
  \<^verbatim>\<open>back()\<close> and \<^verbatim>\<open>pop_back()\<close> on one of the others that is empty are
  \<open>OutOfRange\<close>.
\<close>

function shrink_metrics :: "nat \<Rightarrow> 'u PeakMeter \<Rightarrow> error + 'u PeakMeter" where
  "shrink_metrics limit s =
     (if limit < length (peak_signal s) then
        (if visible_peak_power s = [] \<or> max_peak_signal s = [] \<or> max_peak_power s = []
         then Inl OutOfRange
         else shrink_metrics limit
                (s\<lparr>peak_signal := butlast (peak_signal s),
                   visible_peak_power := butlast (visible_peak_power s),
                   max_peak_signal := butlast (max_peak_signal s),
                   max_peak_power := butlast (max_peak_power s)\<rparr>))
      else Inr s)"
  by pat_completeness auto
termination
  by (relation "measure (\<lambda>(limit, s). length (peak_signal s))") auto

function grow_metrics :: "nat \<Rightarrow> 'u PeakMeter \<Rightarrow> 'u PeakMeter" where
  "grow_metrics limit s =
     (if length (peak_signal s) < limit then
        grow_metrics limit
          (s\<lparr>peak_signal := peak_signal s @ [Fin 0],
             visible_peak_power := visible_peak_power s @ [Num minus_infinity],
             max_peak_signal := max_peak_signal s @ [Fin 0],
             max_peak_power := max_peak_power s @ [minus_infinity]\<rparr>)
      else s)"
  by pat_completeness auto
termination
  by (relation "measure (\<lambda>(limit, s). limit - length (peak_signal s))") auto

function shrink_units :: "nat \<Rightarrow> 'u PeakMeter \<Rightarrow> error + 'u PeakMeter" where
  "shrink_units na s =
     (if na < length (kmeter s) then
        (if iec1meter s = [] \<or> iec2meter s = [] \<or> vumeter s = []
         then Inl OutOfRange
         else shrink_units na
                (s\<lparr>kmeter := butlast (kmeter s),
                   iec1meter := butlast (iec1meter s),
                   iec2meter := butlast (iec2meter s),
                   vumeter := butlast (vumeter s)\<rparr>))
      else Inr s)"
  by pat_completeness auto
termination
  by (relation "measure (\<lambda>(na, s). length (kmeter s))") auto

function grow_units :: "'u dsps \<Rightarrow> nat \<Rightarrow> 'u PeakMeter \<Rightarrow> 'u PeakMeter" where
  "grow_units D na s =
     (if length (kmeter s) < na then
        grow_units D na
          (s\<lparr>kmeter := kmeter s @ [dsp_new (Kmeterdsp D)],
             iec1meter := iec1meter s @ [dsp_new (Iec1ppmdsp D)],
             iec2meter := iec2meter s @ [dsp_new (Iec2ppmdsp D)],
             vumeter := vumeter s @ [dsp_new (Vumeterdsp D)]\<rparr>)
      else s)"
  by pat_completeness auto
termination
  by (relation "measure (\<lambda>(D, na, s). na - length (kmeter s))") auto

definition assert :: "bool \<Rightarrow> 's \<Rightarrow> error + 's" where
  "assert b s = (if b then Inr s else Inl AssertionFailed)"

text \<open>\<^verbatim>\<open>PeakMeter::reset_max_channels\<close>.\<close>

definition reset_max_channels :: "'u dsps \<Rightarrow> 'u PeakMeter \<Rightarrow> ChanCount \<Rightarrow> error + 'u PeakMeter" where
  "reset_max_channels D s chn =
     (let limit = n_total chn; na = n_audio chn in
      bindE (shrink_metrics limit s) (\<lambda>s.
      bindE (Inr (grow_metrics limit s)) (\<lambda>s.
      bindE (assert (length (peak_signal s) = limit \<and> length (visible_peak_power s) = limit
                     \<and> length (max_peak_signal s) = limit \<and> length (max_peak_power s) = limit) s) (\<lambda>s.
      bindE (shrink_units na s) (\<lambda>s.
      bindE (Inr (grow_units D na s)) (\<lambda>s.
      bindE (assert (length (kmeter s) = na \<and> length (iec1meter s) = na
                     \<and> length (iec2meter s) = na \<and> length (vumeter s) = na) s) (\<lambda>s.
      bindE (reset D s) reset_max)))))))"

text \<open>\<^verbatim>\<open>PeakMeter::can_support_io_configuration\<close>: the result and the value left in \<^verbatim>\<open>out\<close>.\<close>

definition can_support_io_configuration :: "ChanCount \<Rightarrow> bool \<times> ChanCount" where
  "can_support_io_configuration cin = (True, cin)"

text \<open>
  \<^verbatim>\<open>PeakMeter::configure_io\<close>: the value returned and the meter after the call. The last
  line returns what the base class's \<^verbatim>\<open>Processor::configure_io\<close> returns; that
  function is not among the sources and its result is the parameter \<open>base\<close>.
\<close>

definition configure_io ::
  "'u dsps \<Rightarrow> (ChanCount \<Rightarrow> ChanCount \<Rightarrow> bool) \<Rightarrow> 'u PeakMeter \<Rightarrow> ChanCount \<Rightarrow> ChanCount
     \<Rightarrow> error + (bool \<times> 'u PeakMeter)" where
  "configure_io D base s cin cout =
     (if cout \<noteq> cin then Inr (False, s)
      else
        bindE (reset_max_channels D (s\<lparr>current_meters := cin\<rparr>) cin) (\<lambda>s.
        Inr (base cin cout, s)))"

definition reflect_body1 :: "nat \<Rightarrow> 'u PeakMeter \<Rightarrow> error + 'u PeakMeter" where
  "reflect_body1 i s = (if i < length (peak_signal s) then zero_peak i s else Inr s)"

definition reflect_body2 :: "'u dsps \<Rightarrow> nat \<Rightarrow> 'u PeakMeter \<Rightarrow> error + 'u PeakMeter" where
  "reflect_body2 D i s = (if i \<ge> length (kmeter s) then Inr s else reset_body D i s)"

text \<open>
  \<^verbatim>\<open>PeakMeter::reflect_inputs\<close>. The signal \<^verbatim>\<open>ConfigurationChanged\<close> it emits changes
  no field of the meter and is not modelled.
\<close>

definition reflect_inputs :: "'u dsps \<Rightarrow> 'u PeakMeter \<Rightarrow> ChanCount \<Rightarrow> error + 'u PeakMeter" where
  "reflect_inputs D s cin =
     bindE (for_loop [n_total cin..<n_total (current_meters s)] reflect_body1 s) (\<lambda>s.
     bindE (for_loop [n_audio cin..<n_audio (current_meters s)] (reflect_body2 D) s) (\<lambda>s.
     reset_max (s\<lparr>current_meters := cin\<rparr>)))"

text \<open>\<^verbatim>\<open>PeakMeter::~PeakMeter\<close>: the vectors when the loop is left.\<close>

definition PeakMeter_delete :: "'u PeakMeter \<Rightarrow> error + 'u PeakMeter" where
  "PeakMeter_delete s = shrink_units 0 s"

subsection \<open>Capture: run\<close>

text \<open>
  Modelled from the spec: the buffers (ardour/buffer_set.h, ardour/midi_buffer.h,
  ardour/audio_buffer.h and Evoral's MIDI event, none among the sources). A buffer set
  supplies a list of MIDI buffers and a list of audio buffers, \<^verbatim>\<open>bufs.count()\<close> being
  their numbers as a \<^verbatim>\<open>ChanCount\<close> holds them. A MIDI buffer has its events and a capacity; of an event the meter
  reads \<^verbatim>\<open>is_note_on()\<close> and, of a note-on, the velocity byte \<^verbatim>\<open>buffer()[2]\<close>.
  An audio buffer has the flag \<^verbatim>\<open>silent()\<close> and the samples \<^verbatim>\<open>data()\<close>.
\<close>

datatype MidiEvent = NoteOn "8 word" | OtherEvent

record MidiBuffer =
  events :: "MidiEvent list"
  capacity :: nat

record AudioBuffer =
  silent :: bool
  data :: "Sample list"

record BufferSet =
  midi_buffers :: "MidiBuffer list"
  audio_buffers :: "AudioBuffer list"

definition count :: "BufferSet \<Rightarrow> ChanCount" where
  "count bufs = \<lparr> midi_count = of_nat (length (midi_buffers bufs)),
                  audio_count = of_nat (length (audio_buffers bufs)) \<rparr>"

text \<open>
  Modelled from the spec: \<^verbatim>\<open>compute_peak\<close> (ardour/runtime_functions.h, not among the
  sources), the maximum of \<open>current\<close> and the absolute values of the first
  \<open>nframes\<close> samples of the block.
\<close>

definition compute_peak :: "Sample list \<Rightarrow> nat \<Rightarrow> cfloat \<Rightarrow> cfloat" where
  "compute_peak buf nframes current = fold (\<lambda>x acc. max acc (fabs x)) (take nframes buf) current"

text \<open>
  The loop over the events of one MIDI buffer, \<open>val\<close> being a finite \<^verbatim>\<open>float\<close>
  throughout. \<^verbatim>\<open>ev.buffer()[2] / 127.0\<close> is a quotient in \<^verbatim>\<open>double\<close> that
  the declaration of \<^verbatim>\<open>this_vel\<close> converts to \<^verbatim>\<open>float\<close>;
  \<^verbatim>\<open>val += 1.0 / capacity\<close> is a quotient and a sum in \<^verbatim>\<open>double\<close>, converted
  to \<^verbatim>\<open>float\<close> by the assignment. With a capacity of 0 the quotient is
  \<open>+\<infinity>\<close> in C, the sum exceeds 1.0 and \<open>val\<close> becomes 1.0.
\<close>

fun midi_val :: "float_arith \<Rightarrow> nat \<Rightarrow> MidiEvent list \<Rightarrow> real \<Rightarrow> real" where
  "midi_val F cap [] val = val"
| "midi_val F cap (NoteOn vel # es) val =
     (let this_vel = to_float F (to_double F (real (unat vel) / 127)) in
      midi_val F cap es (if this_vel > val then this_vel else val))"
| "midi_val F cap (OtherEvent # es) val =
     (if cap = 0 then midi_val F cap es 1
      else let val = to_float F (to_double F (val + to_double F (1 / real cap))) in
           midi_val F cap es (if val > 1 then 1 else val))"

definition run_midi_body ::
  "float_arith \<Rightarrow> BufferSet \<Rightarrow> nat \<Rightarrow> 'u PeakMeter \<Rightarrow> error + 'u PeakMeter" where
  "run_midi_body F bufs i s =
     bindE (vec_at (midi_buffers bufs) i) (\<lambda>buf.
     bindE (vec_at (midi_buffers bufs) i) (\<lambda>bufn.
     let val = midi_val F (capacity bufn) (events buf) 0 in
     bindE (vec_at (peak_signal s) i) (\<lambda>old.
     bindE (vec_put (peak_signal s) i (max (Fin val) old)) (\<lambda>v.
     Inr (s\<lparr>peak_signal := v\<rparr>)))))"

definition unit_process :: "'u dsp \<Rightarrow> Sample list \<Rightarrow> nat \<Rightarrow> 'u list \<Rightarrow> nat \<Rightarrow> error + 'u list" where
  "unit_process d buf nframes v i =
     bindE (vec_at v i) (\<lambda>u. vec_put v i (dsp_process d buf nframes u))"

text \<open>
  One round of the audio loop: buffer \<open>i\<close>, flat index \<open>n = nm + i\<close>. \<^verbatim>\<open>n\<close> is a
  \<^verbatim>\<open>uint32_t\<close> that both loops increment, and a natural number here: counting up
  from 0, it leaves a vector shorter than \<open>2 ^ 32\<close> before it could wrap around, and the
  vectors of a meter a program reaches are shorter than that (\<open>reachable_short\<close>).
\<close>

definition run_audio_body ::
  "'u dsps \<Rightarrow> BufferSet \<Rightarrow> nat \<Rightarrow> nat \<Rightarrow> nat \<Rightarrow> 'u PeakMeter \<Rightarrow> error + 'u PeakMeter" where
  "run_audio_body D bufs nframes nm i s =
     (let n = nm + i in
      bindE (vec_at (audio_buffers bufs) i) (\<lambda>buf.
      bindE (if silent buf then vec_put (peak_signal s) n (Fin 0)
             else bindE (vec_at (peak_signal s) n) (\<lambda>old.
                  vec_put (peak_signal s) n (compute_peak (data buf) nframes old))) (\<lambda>p.
      bindE (if meter_type s \<inter> K_bits \<noteq> {}
             then unit_process (Kmeterdsp D) (data buf) nframes (kmeter s) i
             else Inr (kmeter s)) (\<lambda>k.
      bindE (if meter_type s \<inter> IEC1_bits \<noteq> {}
             then unit_process (Iec1ppmdsp D) (data buf) nframes (iec1meter s) i
             else Inr (iec1meter s)) (\<lambda>i1.
      bindE (if meter_type s \<inter> IEC2_bits \<noteq> {}
             then unit_process (Iec2ppmdsp D) (data buf) nframes (iec2meter s) i
             else Inr (iec2meter s)) (\<lambda>i2.
      bindE (if meter_type s \<inter> VU_bits \<noteq> {}
             then unit_process (Vumeterdsp D) (data buf) nframes (vumeter s) i
             else Inr (vumeter s)) (\<lambda>vu.
      Inr (s\<lparr>peak_signal := p, kmeter := k, iec1meter := i1, iec2meter := i2,
              vumeter := vu\<rparr>))))))))"

text \<open>\<^verbatim>\<open>PeakMeter::run\<close>.\<close>

definition run ::
  "'u dsps \<Rightarrow> float_arith \<Rightarrow> 'u PeakMeter \<Rightarrow> BufferSet \<Rightarrow> nat \<Rightarrow> error + 'u PeakMeter" where
  "run D F s bufs nframes =
     (if \<not> active s \<and> \<not> pending_active s then Inr s
      else
        let na = min (n_audio (current_meters s)) (n_audio (count bufs));
            nm = min (n_midi (current_meters s)) (n_midi (count bufs)) in
        bindE (for_loop [0..<nm] (run_midi_body F bufs) s) (\<lambda>s.
        bindE (for_loop [0..<na] (run_audio_body D bufs nframes nm) s) (\<lambda>s.
        bindE (for_loop [nm + na..<length (peak_signal s)] zero_peak s) (\<lambda>s.
        Inr (s\<lparr>active := pending_active s\<rparr>)))))"

subsection \<open>Reduction: meter\<close>

text \<open>
  The falloff of a MIDI channel:
  \<^verbatim>\<open>new_peak = v - sqrt (v * midi_meter_falloff * 0.0002f); if (new_peak < (1.0 / 512.0)) new_peak = 0;\<close>
  The square root of a negative number and the difference of two infinities are NaN,
  which the comparison lets through.
\<close>

definition midi_falloff :: "float_arith \<Rightarrow> nfloat \<Rightarrow> nfloat \<Rightarrow> nfloat" where
  "midi_falloff F v midi_meter_falloff =
     (let new_peak =
            fl_sub F v (fl_sqrt F (fl_mul F (fl_mul F v midi_meter_falloff) (Num (Fin (fl_0_0002 F)))))
      in if nless new_peak (Num (Fin (1 / 512))) then Num (Fin 0) else new_peak)"

text \<open>
  One round of the loop of \<^verbatim>\<open>PeakMeter::meter\<close>. \<open>dB\<close> is
  \<^verbatim>\<open>accurate_coefficient_to_dB\<close> (ardour/dB.h, not among the sources), a parameter.
\<close>

definition meter_body ::
  "float_arith \<Rightarrow> (cfloat \<Rightarrow> cfloat) \<Rightarrow> nat \<Rightarrow> nfloat \<Rightarrow> nfloat \<Rightarrow> nat \<Rightarrow> 'u PeakMeter
     \<Rightarrow> error + 'u PeakMeter" where
  "meter_body F dB nm midi_meter_falloff audio_meter_falloff n s =
     bindE (vec_at (peak_signal s) n) (\<lambda>new_peak.
     bindE (vec_put (peak_signal s) n (Fin 0)) (\<lambda>raw.
     if n < nm then
       bindE (vec_put (max_peak_power s) n MInf) (\<lambda>mp.
       bindE (vec_put (max_peak_signal s) n (Fin 0)) (\<lambda>ms.
       bindE (vec_at (visible_peak_power s) n) (\<lambda>vis.
       let new_peak = (if midi_meter_falloff = Num (Fin 0) \<or> nless vis (Num new_peak)
                       then Num new_peak
                       else midi_falloff F vis midi_meter_falloff) in
       bindE (vec_put (visible_peak_power s) n new_peak) (\<lambda>vp.
       Inr (s\<lparr>peak_signal := raw, max_peak_power := mp, max_peak_signal := ms,
               visible_peak_power := vp\<rparr>)))))
     else
       bindE (vec_at (max_peak_signal s) n) (\<lambda>old_ms.
       bindE (vec_put (max_peak_signal s) n (max new_peak old_ms)) (\<lambda>ms.
       let new_peak = (if new_peak > Fin 0 then dB new_peak else minus_infinity) in
       bindE (vec_at (max_peak_power s) n) (\<lambda>old_mp.
       bindE (vec_put (max_peak_power s) n (max new_peak old_mp)) (\<lambda>mp.
       bindE (vec_at (visible_peak_power s) n) (\<lambda>vis.
       bindE (if audio_meter_falloff = Num (Fin 0) \<or> nless vis (Num new_peak)
              then vec_put (visible_peak_power s) n (Num new_peak)
              else vec_put (visible_peak_power s) n
                     (nmax (fl_sub F vis audio_meter_falloff) (Num MInf))) (\<lambda>vp.
       Inr (s\<lparr>peak_signal := raw, max_peak_power := mp, max_peak_signal := ms,
               visible_peak_power := vp\<rparr>)))))))))"

text \<open>
  \<^verbatim>\<open>audio_meter_falloff\<close> of \<^verbatim>\<open>PeakMeter::meter\<close>: the \<^verbatim>\<open>float\<close> \<^verbatim>\<open>0.12f\<close>
  (24 dB in 2 seconds) for the K meters, the falloff of the MIDI channels for the
  others.
\<close>

definition audio_meter_falloff :: "float_arith \<Rightarrow> MeterType \<Rightarrow> nfloat \<Rightarrow> nfloat" where
  "audio_meter_falloff F t midi_meter_falloff =
     (if t \<inter> {MeterK20, MeterK14, MeterK12} \<noteq> {} then Num (Fin (fl_0_12 F))
      else midi_meter_falloff)"

text \<open>
  \<^verbatim>\<open>midi_meter_falloff\<close> of \<^verbatim>\<open>PeakMeter::meter\<close>: the product in \<^verbatim>\<open>float\<close> of
  the configured falloff and \<^verbatim>\<open>0.01f\<close>.
\<close>

definition midi_meter_falloff :: "float_arith \<Rightarrow> real \<Rightarrow> nfloat" where
  "midi_meter_falloff F falloff = fl_mul F (Num (Fin falloff)) (Num (Fin (fl_0_01 F)))"

text \<open>
  \<^verbatim>\<open>PeakMeter::meter\<close>. \<open>falloff\<close> is what \<^verbatim>\<open>Config->get_meter_falloff()\<close> returns
  at this tick, a finite \<^verbatim>\<open>float\<close>.
\<close>

definition meter ::
  "float_arith \<Rightarrow> (cfloat \<Rightarrow> cfloat) \<Rightarrow> real \<Rightarrow> 'u PeakMeter \<Rightarrow> error + 'u PeakMeter" where
  "meter F dB falloff s =
     (if \<not> active s then Inr s
      else if length (visible_peak_power s) \<noteq> length (peak_signal s)
              \<or> length (max_peak_power s) \<noteq> length (peak_signal s)
              \<or> length (max_peak_signal s) \<noteq> length (peak_signal s)
      then Inr s
      else
        let limit = min (length (peak_signal s)) (n_total (current_meters s));
            nm = min (length (peak_signal s)) (n_midi (current_meters s));
            mf = midi_meter_falloff F falloff in
        for_loop [0..<limit]
          (meter_body F dB nm mf (audio_meter_falloff F (meter_type s) mf)) s)"

subsection \<open>Query: meter\_level\<close>

text \<open>
  Modelled from the spec: \<^verbatim>\<open>peak_power\<close> (declared in ardour/meter.h, not among the
  sources). The spec: \<^verbatim>\<open>MeterPeak\<close> returns the visible level of the channel, and a read
  at an invalid index returns the minus-infinity sentinel.
\<close>

definition peak_power :: "'u PeakMeter \<Rightarrow> nat \<Rightarrow> error + nfloat" where
  "peak_power s n =
     (if n < length (visible_peak_power s) then vec_at (visible_peak_power s) n
      else Inr (Num minus_infinity))"

text \<open>The macro \<^verbatim>\<open>CHECKSIZE(MTR)\<close>.\<close>

definition CHECKSIZE :: "'a list \<Rightarrow> nat \<Rightarrow> nat \<Rightarrow> bool" where
  "CHECKSIZE MTR n nm = (n < length MTR + nm \<and> n \<ge> nm)"

definition unit_level ::
  "(cfloat \<Rightarrow> cfloat) \<Rightarrow> 'u dsp \<Rightarrow> 'u list \<Rightarrow> 'u PeakMeter \<Rightarrow> nat \<Rightarrow> error + nfloat" where
  "unit_level dB d MTR s n =
     (let nm = n_midi (current_meters s) in
      if CHECKSIZE MTR n nm
      then bindE (vec_at MTR (n - nm)) (\<lambda>u. Inr (Num (dB (dsp_read d u))))
      else Inr (Num minus_infinity))"

text \<open>\<^verbatim>\<open>PeakMeter::meter_level\<close>; the last branch is \<^verbatim>\<open>default:\<close> and \<^verbatim>\<open>case MeterMaxPeak:\<close>.\<close>

definition meter_level ::
  "(cfloat \<Rightarrow> cfloat) \<Rightarrow> 'u dsps \<Rightarrow> 'u PeakMeter \<Rightarrow> nat \<Rightarrow> MeterType \<Rightarrow> error + nfloat" where
  "meter_level dB D s n type =
     (if type = {MeterKrms} \<or> type = {MeterK20} \<or> type = {MeterK14} \<or> type = {MeterK12}
      then unit_level dB (Kmeterdsp D) (kmeter s) s n
      else if type = {MeterIEC1DIN} \<or> type = {MeterIEC1NOR}
      then unit_level dB (Iec1ppmdsp D) (iec1meter s) s n
      else if type = {MeterIEC2BBC} \<or> type = {MeterIEC2EBU}
      then unit_level dB (Iec2ppmdsp D) (iec2meter s) s n
      else if type = {MeterVU}
      then unit_level dB (Vumeterdsp D) (vumeter s) s n
      else if type = {MeterPeak}
      then peak_power s n
      else if type = {MeterMaxSignal}
      then (if n < length (max_peak_signal s)
            then bindE (vec_at (max_peak_signal s) n) (\<lambda>x. Inr (Num x))
            else Inr (Num minus_infinity))
      else (if n < length (max_peak_power s)
            then bindE (vec_at (max_peak_power s) n) (\<lambda>x. Inr (Num x))
            else Inr (Num minus_infinity)))"

subsection \<open>Closed forms and example objects\<close>

text \<open>The first \<open>na\<close> units of a vector reset, the others as they were.\<close>

definition reset_first :: "'u dsp \<Rightarrow> nat \<Rightarrow> 'u list \<Rightarrow> 'u list" where
  "reset_first d na v = tab 0 na (\<lambda>j. dsp_reset d (v ! j)) v"

text \<open>
  An example of a ballistics class: the unit counts the blocks it was fed since it was
  constructed or reset.
\<close>

definition count_dsp :: "nat dsp" where
  "count_dsp = \<lparr> dsp_new = 0, dsp_reset = (\<lambda>u. 0), dsp_process = (\<lambda>buf nframes u. Suc u),
                 dsp_read = (\<lambda>u. Fin (real u)) \<rparr>"

definition count_dsps :: "nat dsps" where
  "count_dsps = \<lparr> Kmeterdsp = count_dsp, Iec1ppmdsp = count_dsp, Iec2ppmdsp = count_dsp,
                  Vumeterdsp = count_dsp \<rparr>"

text \<open>
  A meter of one audio channel with the type \<^verbatim>\<open>MeterK20\<close>, after the capture of one
  silent block: the K unit was fed one block, the other units none.
\<close>

definition one_audio :: "nat PeakMeter" where
  "one_audio =
     \<lparr> active = True, pending_active = True, meter_type = {MeterK20},
       current_meters = \<lparr> midi_count = 0, audio_count = 1 \<rparr>,
       peak_signal = [Fin 0], visible_peak_power = [Num MInf], max_peak_signal = [Fin 0],
       max_peak_power = [MInf], kmeter = [1], iec1meter = [0], iec2meter = [0], vumeter = [0] \<rparr>"

text \<open>The invariants of the vectors' sizes.\<close>

definition units_inv :: "'u PeakMeter \<Rightarrow> bool" where
  "units_inv s \<longleftrightarrow> length (iec1meter s) = length (kmeter s)
     \<and> length (iec2meter s) = length (kmeter s) \<and> length (vumeter s) = length (kmeter s)"

definition metrics_inv :: "'u PeakMeter \<Rightarrow> bool" where
  "metrics_inv s \<longleftrightarrow> length (visible_peak_power s) = length (peak_signal s)
     \<and> length (max_peak_signal s) = length (peak_signal s)
     \<and> length (max_peak_power s) = length (peak_signal s)"

text \<open>The meter after the rounds \<open>a\<close> to \<open>b\<close> of the second loop of \<^verbatim>\<open>reset\<close>.\<close>

definition reset_range :: "'u dsps \<Rightarrow> nat \<Rightarrow> nat \<Rightarrow> 'u PeakMeter \<Rightarrow> 'u PeakMeter" where
  "reset_range D a b s =
     s\<lparr>kmeter := tab a b (\<lambda>j. dsp_reset (Kmeterdsp D) (kmeter s ! j)) (kmeter s),
       iec1meter := tab a b (\<lambda>j. dsp_reset (Iec1ppmdsp D) (iec1meter s ! j)) (iec1meter s),
       iec2meter := tab a b (\<lambda>j. dsp_reset (Iec2ppmdsp D) (iec2meter s ! j)) (iec2meter s),
       vumeter := tab a b (\<lambda>j. dsp_reset (Vumeterdsp D) (vumeter s ! j)) (vumeter s)\<rparr>"

text \<open>
  The visible levels \<^verbatim>\<open>reset_max\<close> leaves: 0 for the \<open>nm\<close> MIDI channels, minus
  infinity for the others.
\<close>

definition visible_baseline :: "nat \<Rightarrow> nat \<Rightarrow> nfloat list" where
  "visible_baseline nm len = map (\<lambda>n. if n < nm then Num (Fin 0) else Num MInf) [0..<len]"

text \<open>
  A vector brought to the size \<open>n\<close> at its end: cut, or filled with \<open>c\<close>. The units of a
  family after \<^verbatim>\<open>reset_max_channels\<close>: resized, fresh units filling, and all reset.
\<close>

definition resized :: "'a \<Rightarrow> nat \<Rightarrow> 'a list \<Rightarrow> 'a list" where
  "resized c n v = take n v @ replicate (n - length v) c"

definition resized_units :: "'u dsp \<Rightarrow> nat \<Rightarrow> 'u list \<Rightarrow> 'u list" where
  "resized_units d na v = map (dsp_reset d) (resized (dsp_new d) na v)"

subsection \<open>The calls of a meter and the meters they reach\<close>

text \<open>
  The member functions as commands. \<open>SetPendingActive\<close> is no function of meter.cc:
  the file sets \<^verbatim>\<open>_pending_active\<close> in the constructor alone, and the base class
  (not among the sources) can write the field. The command stands for such a write:
  with it \<open>reachable\<close> holds of more meters, and a theorem on the meters reached
  holds of them too. \<open>member_call\<close> is true of the commands that are functions of
  meter.cc; the meters \<open>built\<close> are reached by these alone.
\<close>

datatype op =
    Run BufferSet nat | Reset | ResetMax | ConfigureIO ChanCount ChanCount
  | ReflectInputs ChanCount | ResetMaxChannels ChanCount | Meter real | SetType MeterType
  | SetPendingActive bool

definition exec ::
  "'u dsps \<Rightarrow> float_arith \<Rightarrow> (cfloat \<Rightarrow> cfloat) \<Rightarrow> (ChanCount \<Rightarrow> ChanCount \<Rightarrow> bool)
     \<Rightarrow> 'u PeakMeter \<Rightarrow> op \<Rightarrow> error + 'u PeakMeter" where
  "exec D F dB base s c =
     (case c of
        Run bufs nframes \<Rightarrow> run D F s bufs nframes
      | Reset \<Rightarrow> reset D s
      | ResetMax \<Rightarrow> reset_max s
      | ConfigureIO cin cout \<Rightarrow> bindE (configure_io D base s cin cout) (\<lambda>r. Inr (snd r))
      | ReflectInputs cin \<Rightarrow> reflect_inputs D s cin
      | ResetMaxChannels chn \<Rightarrow> reset_max_channels D s chn
      | Meter falloff \<Rightarrow> meter F dB falloff s
      | SetType t \<Rightarrow> set_type D s t
      | SetPendingActive b \<Rightarrow> Inr (s\<lparr>pending_active := b\<rparr>))"

inductive reachable ::
  "'u dsps \<Rightarrow> float_arith \<Rightarrow> (cfloat \<Rightarrow> cfloat) \<Rightarrow> (ChanCount \<Rightarrow> ChanCount \<Rightarrow> bool)
     \<Rightarrow> 'u PeakMeter \<Rightarrow> bool"
  for D F dB base where
    new: "reachable D F dB base PeakMeter_new"
  | step: "reachable D F dB base s \<Longrightarrow> exec D F dB base s c = Inr s' \<Longrightarrow> reachable D F dB base s'"

fun member_call :: "op \<Rightarrow> bool" where
  "member_call (SetPendingActive b) = False"
| "member_call (Run bufs nframes) = True"
| "member_call Reset = True"
| "member_call ResetMax = True"
| "member_call (ConfigureIO cin cout) = True"
| "member_call (ReflectInputs cin) = True"
| "member_call (ResetMaxChannels chn) = True"
| "member_call (Meter falloff) = True"
| "member_call (SetType t) = True"

definition sizes :: "'u PeakMeter \<Rightarrow> nat list" where
  "sizes s = [length (peak_signal s), length (visible_peak_power s), length (max_peak_signal s),
     length (max_peak_power s), length (kmeter s), length (iec1meter s), length (iec2meter s),
     length (vumeter s)]"

definition midi_max_baseline :: "'u PeakMeter \<Rightarrow> bool" where
  "midi_max_baseline s \<longleftrightarrow>
     (let nm = min (length (peak_signal s)) (n_midi (current_meters s)) in
      take nm (max_peak_signal s) = replicate nm (Fin 0)
      \<and> take nm (max_peak_power s) = replicate nm MInf)"

text \<open>What a call that is no max-reset keeps: sizes, layout, and the maxima.\<close>

definition keeps_max :: "'u PeakMeter \<Rightarrow> 'u PeakMeter \<Rightarrow> bool" where
  "keeps_max s s' \<longleftrightarrow> sizes s' = sizes s \<and> current_meters s' = current_meters s
     \<and> max_peak_signal s' = max_peak_signal s \<and> max_peak_power s' = max_peak_power s
     \<and> visible_peak_power s' = visible_peak_power s \<and> pending_active s' = pending_active s"

text \<open>What one Reduction keeps.\<close>

definition meter_keeps :: "'u PeakMeter \<Rightarrow> 'u PeakMeter \<Rightarrow> bool" where
  "meter_keeps s s' \<longleftrightarrow> sizes s' = sizes s \<and> current_meters s' = current_meters s
     \<and> midi_max_baseline s'
     \<and> list_all2 (\<le>) (max_peak_signal s) (max_peak_signal s')
     \<and> list_all2 (\<le>) (max_peak_power s) (max_peak_power s')"

text \<open>The invariant of the meters a program reaches.\<close>

definition wf :: "'u PeakMeter \<Rightarrow> bool" where
  "wf s \<longleftrightarrow> metrics_inv s \<and> units_inv s \<and> midi_max_baseline s"

text \<open>
  The meter \<open>PeakMeter_new\<close> becomes when \<^verbatim>\<open>configure_io\<close> accepts one MIDI and two
  audio channels, the units being those of \<open>count_dsps\<close>.
\<close>

definition midi_stereo :: "nat PeakMeter" where
  "midi_stereo =
     \<lparr> active = False, pending_active = True, meter_type = {MeterPeak},
       current_meters = \<lparr> midi_count = 1, audio_count = 2 \<rparr>,
       peak_signal = [Fin 0, Fin 0, Fin 0],
       visible_peak_power = [Num (Fin 0), Num MInf, Num MInf],
       max_peak_signal = [Fin 0, Fin 0, Fin 0], max_peak_power = [MInf, MInf, MInf],
       kmeter = [0, 0], iec1meter = [0, 0], iec2meter = [0, 0], vumeter = [0, 0] \<rparr>"

subsection \<open>One Reduction, channel by channel\<close>




text \<open>A sequence of calls, and the calls that do not reset the maxima.\<close>

fun no_max_reset :: "op \<Rightarrow> bool" where
  "no_max_reset (Run bufs nframes) = True"
| "no_max_reset Reset = True"
| "no_max_reset (Meter falloff) = True"
| "no_max_reset (SetType t) = True"
| "no_max_reset (SetPendingActive b) = True"
| "no_max_reset ResetMax = False"
| "no_max_reset (ConfigureIO cin cout) = False"
| "no_max_reset (ReflectInputs cin) = False"
| "no_max_reset (ResetMaxChannels chn) = False"

fun execs ::
  "'u dsps \<Rightarrow> float_arith \<Rightarrow> (cfloat \<Rightarrow> cfloat) \<Rightarrow> (ChanCount \<Rightarrow> ChanCount \<Rightarrow> bool)
     \<Rightarrow> 'u PeakMeter \<Rightarrow> op list \<Rightarrow> error + 'u PeakMeter" where
  "execs D F dB base s [] = Inr s"
| "execs D F dB base s (c # cs) =
     (case exec D F dB base s c of Inl e \<Rightarrow> Inl e | Inr s' \<Rightarrow> execs D F dB base s' cs)"

text \<open>
  The meter \<open>s\<close> is what the calls \<open>cs\<close> of member functions of meter.cc, none of which
  ends in an error, make of a meter that was just constructed.
\<close>

definition built ::
  "'u dsps \<Rightarrow> float_arith \<Rightarrow> (cfloat \<Rightarrow> cfloat) \<Rightarrow> (ChanCount \<Rightarrow> ChanCount \<Rightarrow> bool)
     \<Rightarrow> op list \<Rightarrow> 'u PeakMeter \<Rightarrow> bool" where
  "built D F dB base cs s \<longleftrightarrow>
     list_all member_call cs \<and> execs D F dB base PeakMeter_new cs = Inr s"

subsection \<open>More example objects\<close>

text \<open>
  An example of the parameter \<open>dB\<close>: 20 times the logarithm to base 10 of a positive
  coefficient, minus infinity for a coefficient that is not positive.
\<close>

definition decibel :: "cfloat \<Rightarrow> cfloat" where
  "decibel c = (case c of MInf \<Rightarrow> MInf | Fin x \<Rightarrow> (if 0 < x then Fin (20 * log 10 x) else MInf)
                | PInf \<Rightarrow> PInf)"

text \<open>
  An example of the arithmetic. The product, the difference and the square root are
  those of the extended reals, not rounded, and NaN where the extended reals have no
  value; they are what the machine computes wherever the exact value is a
  \<^verbatim>\<open>float\<close>. The constants are the values of the literals in single precision. The
  conversions round to the nearest multiple of \<open>2 ^ -53\<close> and of \<open>2 ^ -24\<close>, which is
  what double and single precision do between 1/2 and 1 (a tie apart).
\<close>

fun cmul :: "cfloat \<Rightarrow> cfloat \<Rightarrow> nfloat" where
  "cmul (Fin a) (Fin b) = Num (Fin (a * b))"
| "cmul (Fin a) PInf = (if a = 0 then NaN else if 0 < a then Num PInf else Num MInf)"
| "cmul (Fin a) MInf = (if a = 0 then NaN else if 0 < a then Num MInf else Num PInf)"
| "cmul PInf (Fin b) = (if b = 0 then NaN else if 0 < b then Num PInf else Num MInf)"
| "cmul MInf (Fin b) = (if b = 0 then NaN else if 0 < b then Num MInf else Num PInf)"
| "cmul PInf PInf = Num PInf"
| "cmul PInf MInf = Num MInf"
| "cmul MInf PInf = Num MInf"
| "cmul MInf MInf = Num PInf"

fun csub :: "cfloat \<Rightarrow> cfloat \<Rightarrow> nfloat" where
  "csub (Fin a) (Fin b) = Num (Fin (a - b))"
| "csub (Fin a) PInf = Num MInf"
| "csub (Fin a) MInf = Num PInf"
| "csub PInf (Fin b) = Num PInf"
| "csub PInf MInf = Num PInf"
| "csub PInf PInf = NaN"
| "csub MInf (Fin b) = Num MInf"
| "csub MInf PInf = Num MInf"
| "csub MInf MInf = NaN"

fun csqrt :: "cfloat \<Rightarrow> nfloat" where
  "csqrt (Fin a) = (if a < 0 then NaN else Num (Fin (sqrt a)))"
| "csqrt PInf = Num PInf"
| "csqrt MInf = NaN"

fun lift2 :: "(cfloat \<Rightarrow> cfloat \<Rightarrow> nfloat) \<Rightarrow> nfloat \<Rightarrow> nfloat \<Rightarrow> nfloat" where
  "lift2 f (Num a) (Num b) = f a b"
| "lift2 f NaN y = NaN"
| "lift2 f (Num a) NaN = NaN"

fun lift1 :: "(cfloat \<Rightarrow> nfloat) \<Rightarrow> nfloat \<Rightarrow> nfloat" where
  "lift1 f (Num a) = f a"
| "lift1 f NaN = NaN"

definition nearest :: "nat \<Rightarrow> real \<Rightarrow> real" where
  "nearest k x = of_int (round (x * 2 ^ k)) / 2 ^ k"

definition example_arith :: float_arith where
  "example_arith =
     \<lparr> fl_mul = lift2 cmul, fl_sub = lift2 csub, fl_sqrt = lift1 csqrt,
       fl_0_01 = 5368709 / 536870912, fl_0_12 = 16106127 / 134217728,
       fl_0_0002 = 13743895 / 68719476736,
       to_double = nearest 53, to_float = nearest 24 \<rparr>"




text \<open>
  A meter of three channels whose layout \<^verbatim>\<open>reflect_inputs\<close> has set to two audio
  channels: the vectors keep their three elements. The first channel has captured a
  full-scale sample.
\<close>

definition reflected :: "nat PeakMeter" where
  "reflected =
     \<lparr> active = True, pending_active = True, meter_type = {MeterPeak},
       current_meters = \<lparr> midi_count = 0, audio_count = 2 \<rparr>,
       peak_signal = [Fin 1, Fin 0, Fin 0],
       visible_peak_power = [Num MInf, Num MInf, Num MInf],
       max_peak_signal = [Fin 0, Fin 0, Fin 0], max_peak_power = [MInf, MInf, MInf],
       kmeter = [0, 0], iec1meter = [0, 0], iec2meter = [0, 0], vumeter = [0, 0] \<rparr>"

text \<open>The same meter with a vector of visible levels that is one element short.\<close>

definition resizing :: "nat PeakMeter" where
  "resizing = reflected\<lparr>visible_peak_power := [Num MInf, Num MInf]\<rparr>"

text \<open>
  A meter of one audio channel with the type \<^verbatim>\<open>MeterK20\<close>, after two captures of a
  full-scale block with a Reduction in between: the visible level is 0 dB and the raw
  value 1.
\<close>

definition k20_meter :: "nat PeakMeter" where
  "k20_meter =
     \<lparr> active = True, pending_active = True, meter_type = {MeterK20},
       current_meters = \<lparr> midi_count = 0, audio_count = 1 \<rparr>,
       peak_signal = [Fin 1], visible_peak_power = [Num (Fin 0)], max_peak_signal = [Fin 1],
       max_peak_power = [Fin 0], kmeter = [2], iec1meter = [0], iec2meter = [0], vumeter = [0] \<rparr>"

text \<open>
  A buffer set of one MIDI buffer with a note-on of velocity 64 and two audio buffers,
  the first holding the sample -1, the second silent; the meter \<open>midi_stereo\<close> after a
  Capture of it, and after the Reduction that follows with the falloff 0.5. The
  velocity 64 is captured as 2113665/4194304, the \<^verbatim>\<open>float\<close> nearest to 64/127.
\<close>

definition example_bufs :: BufferSet where
  "example_bufs =
     \<lparr> midi_buffers = [\<lparr> events = [NoteOn 64], capacity = 8 \<rparr>],
       audio_buffers = [\<lparr> silent = False, data = [Fin (- 1)] \<rparr>, \<lparr> silent = True, data = [Fin 0] \<rparr>] \<rparr>"

definition captured :: "nat PeakMeter" where
  "captured =
     midi_stereo\<lparr>active := True, peak_signal := [Fin (2113665 / 4194304), Fin 1, Fin 0]\<rparr>"

definition after_tick :: "nat PeakMeter" where
  "after_tick =
     captured\<lparr>peak_signal := [Fin 0, Fin 0, Fin 0],
              visible_peak_power := [Num (Fin (2113665 / 4194304)), Num (Fin 0), Num MInf],
              max_peak_signal := [Fin 0, Fin 1, Fin 0],
              max_peak_power := [MInf, Fin 0, MInf]\<rparr>"

subsection \<open>Query and Capture in closed form\<close>

text \<open>
  The level a unit vector gives for the flat index \<open>n\<close>, the MIDI channels being the
  first \<open>nm\<close>: the reading of unit \<open>n - nm\<close> in dB inside the audio range of the
  vector, minus infinity outside.
\<close>

definition family_level ::
  "(cfloat \<Rightarrow> cfloat) \<Rightarrow> 'u dsp \<Rightarrow> 'u list \<Rightarrow> nat \<Rightarrow> nat \<Rightarrow> cfloat" where
  "family_level dB d MTR nm n =
     (if nm \<le> n \<and> n < nm + length MTR then dB (dsp_read d (MTR ! (n - nm))) else MInf)"




text \<open>The units of a family after the first \<open>na\<close> were fed their blocks, if the family is selected.\<close>

definition processed :: "bool \<Rightarrow> 'u dsp \<Rightarrow> BufferSet \<Rightarrow> nat \<Rightarrow> nat \<Rightarrow> 'u list \<Rightarrow> 'u list" where
  "processed sel d bufs nframes na v =
     (if sel then tab 0 na (\<lambda>j. dsp_process d (data (audio_buffers bufs ! j)) nframes (v ! j)) v
      else v)"





text \<open>
  A buffer set of one silent audio buffer, a buffer set without buffers, and a buffer
  set that supplies no MIDI buffer and two audio buffers, the first silent, the second
  holding the sample -1.
\<close>

definition silent_bufs :: BufferSet where
  "silent_bufs = \<lparr> midi_buffers = [], audio_buffers = [\<lparr> silent = True, data = [Fin 0] \<rparr>] \<rparr>"

definition no_bufs :: BufferSet where
  "no_bufs = \<lparr> midi_buffers = [], audio_buffers = [] \<rparr>"

definition audio_only_bufs :: BufferSet where
  "audio_only_bufs =
     \<lparr> midi_buffers = [],
       audio_buffers = [\<lparr> silent = True, data = [Fin 0] \<rparr>, \<lparr> silent = False, data = [Fin (- 1)] \<rparr>] \<rparr>"

text \<open>
  The layout of \<open>2 ^ 32 - 1\<close> MIDI channels and one audio channel, whose total wraps
  around to 0, and the meter \<^verbatim>\<open>configure_io\<close> makes of a new meter with it.
\<close>

definition wide_layout :: ChanCount where
  "wide_layout = \<lparr> midi_count = 4294967295, audio_count = 1 \<rparr>"

definition wide_meter :: "nat PeakMeter" where
  "wide_meter =
     \<lparr> active = False, pending_active = True, meter_type = {MeterPeak},
       current_meters = wide_layout,
       peak_signal = [], visible_peak_power = [], max_peak_signal = [], max_peak_power = [],
       kmeter = [0], iec1meter = [0], iec2meter = [0], vumeter = [0] \<rparr>"

text \<open>
  Modelled from the spec: \<^verbatim>\<open>Processor::configure_io\<close>, the function of the base class
  (ardour/processor.h, not among the sources) whose result \<^verbatim>\<open>PeakMeter::configure_io\<close>
  returns for a layout it has applied. The spec has the reconfiguration reject a
  layout when the output differs from the input and handles every other layout as
  accepted: the call of the base class accepts.
\<close>

definition Processor_configure_io :: "ChanCount \<Rightarrow> ChanCount \<Rightarrow> bool" where
  "Processor_configure_io cin cout = True"


fun is_number :: "nfloat \<Rightarrow> bool" where
  "is_number (Num x) = True"
| "is_number NaN = False"


section \<open>Loops\<close>

lemma bindE_Inr [simp]: "bindE (Inr x) f = f x"
  by (simp add: bindE_def)

lemma bindE_Inl [simp]: "bindE (Inl e) f = Inl e"
  by (simp add: bindE_def)

lemma for_loop_append:
  "for_loop (xs @ ys) body s =
     (case for_loop xs body s of Inl e \<Rightarrow> Inl e | Inr s' \<Rightarrow> for_loop ys body s')"
  by (induction xs arbitrary: s) (auto split: sum.splits)

text \<open>
  The invariant rule of a counting loop: what holds before the loop and is carried by
  each round, the round ending without an error, holds after it.
\<close>

lemma for_loop_range_inv:
  assumes "a \<le> b" and "Inv a s"
    and "\<And>i s. a \<le> i \<Longrightarrow> i < b \<Longrightarrow> Inv i s \<Longrightarrow> \<exists>s'. body i s = Inr s' \<and> Inv (Suc i) s'"
  shows "\<exists>s'. for_loop [a..<b] body s = Inr s' \<and> Inv b s'"
  using assms(1,3)
proof (induction b rule: dec_induct)
  case base
  then show ?case using assms(2) by simp
next
  case (step n)
  have "\<exists>s'. for_loop [a..<n] body s = Inr s' \<and> Inv n s'"
    using step.IH step.prems step.hyps by (meson less_Suc_eq)
  then obtain s1 where s1: "for_loop [a..<n] body s = Inr s1" "Inv n s1"
    by blast
  from step.prems [of n s1] s1 step.hyps obtain s2 where "body n s1 = Inr s2" "Inv (Suc n) s2"
    by auto
  with s1 step.hyps show ?case
    by (simp add: for_loop_append)
qed

lemma for_loop_upt_inv:
  assumes "Inv 0 s"
    and "\<And>i s. i < n \<Longrightarrow> Inv i s \<Longrightarrow> \<exists>s'. body i s = Inr s' \<and> Inv (Suc i) s'"
  shows "\<exists>s'. for_loop [0..<n] body s = Inr s' \<and> Inv n s'"
  using for_loop_range_inv [of 0 n Inv s body] assms by simp

lemma length_tab [simp]: "length (tab a i g v) = length v"
  by (simp add: tab_def)

lemma nth_tab: "j < length v \<Longrightarrow> tab a i g v ! j = (if a \<le> j \<and> j < i then g j else v ! j)"
  by (simp add: tab_def)

lemma tab_start [simp]: "tab a a g v = v"
  by (rule nth_equalityI) (auto simp: nth_tab)

lemma tab_step: "a \<le> i \<Longrightarrow> x = g i \<Longrightarrow> (tab a i g v)[i := x] = tab a (Suc i) g v"
  by (rule nth_equalityI) (auto simp: nth_tab nth_list_update less_Suc_eq)

section \<open>Type selection\<close>

lemma unit_reset_ok: "n < length v \<Longrightarrow> unit_reset d v n = Inr (v[n := dsp_reset d (v ! n)])"
  by (simp add: unit_reset_def vec_at_def vec_put_def)

lemma reset_units_ok:
  assumes "na \<le> length v"
  shows "reset_units d na v = Inr (reset_first d na v)"
proof -
  let ?g = "\<lambda>j. dsp_reset d (v ! j)"
  have "\<exists>v'. for_loop [0..<na] (\<lambda>n v. unit_reset d v n) v = Inr v' \<and> v' = tab 0 na ?g v"
  proof (rule for_loop_upt_inv)
    show "v = tab 0 0 ?g v" by simp
  next
    fix i v' assume "i < na" "v' = tab 0 i ?g v"
    with assms show "\<exists>s'. unit_reset d v' i = Inr s' \<and> s' = tab 0 (Suc i) ?g v"
      by (simp add: unit_reset_ok nth_tab tab_step)
  qed
  then show ?thesis by (simp add: reset_units_def reset_first_def)
qed

section \<open>Reset and reconfiguration: closed forms\<close>

lemma for_loop_preserves:
  assumes "for_loop xs body s = Inr s'" and "P s"
    and "\<And>i s s'. i \<in> set xs \<Longrightarrow> P s \<Longrightarrow> body i s = Inr s' \<Longrightarrow> P s'"
  shows "P s'"
  using assms
proof (induction xs arbitrary: s)
  case Nil
  then show ?case by simp
next
  case (Cons i xs)
  from Cons.prems(1) obtain s1 where s1: "body i s = Inr s1" "for_loop xs body s1 = Inr s'"
    by (auto split: sum.splits)
  have "P s1" using Cons.prems(3) [of i s s1] Cons.prems(2) s1(1) by simp
  then show ?case using Cons.IH [OF s1(2)] Cons.prems(3) by auto
qed


lemma tab_const: "tab 0 (length v) (\<lambda>j. c) v = replicate (length v) c"
  by (rule nth_equalityI) (simp_all add: nth_tab)

lemma tab_map: "tab 0 (length v) (\<lambda>j. f (v ! j)) v = map f v"
  by (rule nth_equalityI) (simp_all add: nth_tab)

lemma tab_all: "tab 0 (length v) g v = map g [0..<length v]"
  by (rule nth_equalityI) (simp_all add: nth_tab)

lemma zero_peak_ok:
  "i < length (peak_signal s) \<Longrightarrow> zero_peak i s = Inr (s\<lparr>peak_signal := (peak_signal s)[i := Fin 0]\<rparr>)"
  by (simp add: zero_peak_def vec_put_def)

lemma zero_loop:
  assumes "a \<le> b" "b \<le> length (peak_signal s)"
  shows "for_loop [a..<b] zero_peak s = Inr (s\<lparr>peak_signal := tab a b (\<lambda>j. Fin 0) (peak_signal s)\<rparr>)"
proof -
  have "\<exists>s'. for_loop [a..<b] zero_peak s = Inr s'
          \<and> s' = s\<lparr>peak_signal := tab a b (\<lambda>j. Fin 0) (peak_signal s)\<rparr>"
  proof (rule for_loop_range_inv [OF assms(1)])
    show "s = s\<lparr>peak_signal := tab a a (\<lambda>j. Fin 0) (peak_signal s)\<rparr>" by simp
  next
    fix i s1
    assume "a \<le> i" "i < b" "s1 = s\<lparr>peak_signal := tab a i (\<lambda>j. Fin 0) (peak_signal s)\<rparr>"
    with assms(2)
    show "\<exists>s'. zero_peak i s1 = Inr s' \<and> s' = s\<lparr>peak_signal := tab a (Suc i) (\<lambda>j. Fin 0) (peak_signal s)\<rparr>"
      by (simp add: zero_peak_ok tab_step)
  qed
  then show ?thesis by simp
qed

lemma reset_body_ok:
  assumes "n < length (kmeter s)" "n < length (iec1meter s)" "n < length (iec2meter s)"
    "n < length (vumeter s)"
  shows "reset_body D n s =
     Inr (s\<lparr>kmeter := (kmeter s)[n := dsp_reset (Kmeterdsp D) (kmeter s ! n)],
            iec1meter := (iec1meter s)[n := dsp_reset (Iec1ppmdsp D) (iec1meter s ! n)],
            iec2meter := (iec2meter s)[n := dsp_reset (Iec2ppmdsp D) (iec2meter s ! n)],
            vumeter := (vumeter s)[n := dsp_reset (Vumeterdsp D) (vumeter s ! n)]\<rparr>)"
  using assms by (simp add: reset_body_def unit_reset_ok)

lemma reset_loop:
  assumes "a \<le> b" "b \<le> length (kmeter s)" "b \<le> length (iec1meter s)"
    "b \<le> length (iec2meter s)" "b \<le> length (vumeter s)"
  shows "for_loop [a..<b] (reset_body D) s = Inr (reset_range D a b s)"
proof -
  have "\<exists>s'. for_loop [a..<b] (reset_body D) s = Inr s' \<and> s' = reset_range D a b s"
  proof (rule for_loop_range_inv [OF assms(1)])
    show "s = reset_range D a a s" by (simp add: reset_range_def)
  next
    fix i s1
    assume "a \<le> i" "i < b" "s1 = reset_range D a i s"
    with assms(2-)
    show "\<exists>s'. reset_body D i s1 = Inr s' \<and> s' = reset_range D a (Suc i) s"
      by (simp add: reset_body_ok reset_range_def tab_step nth_tab)
  qed
  then show ?thesis by simp
qed

lemma reset_ok:
  assumes "units_inv s"
  shows "reset D s =
     Inr (s\<lparr>peak_signal := replicate (length (peak_signal s)) (Fin 0),
            kmeter := map (dsp_reset (Kmeterdsp D)) (kmeter s),
            iec1meter := map (dsp_reset (Iec1ppmdsp D)) (iec1meter s),
            iec2meter := map (dsp_reset (Iec2ppmdsp D)) (iec2meter s),
            vumeter := map (dsp_reset (Vumeterdsp D)) (vumeter s)\<rparr>)"
  using assms tab_map [of "kmeter s" "dsp_reset (Kmeterdsp D)"]
    tab_map [of "iec1meter s" "dsp_reset (Iec1ppmdsp D)"]
    tab_map [of "iec2meter s" "dsp_reset (Iec2ppmdsp D)"]
    tab_map [of "vumeter s" "dsp_reset (Vumeterdsp D)"]
  by (simp add: reset_def zero_loop reset_loop units_inv_def reset_range_def tab_const)

lemma reset_max_loop1:
  assumes "b \<le> length (max_peak_power s)" "b \<le> length (max_peak_signal s)"
  shows "for_loop [0..<b] reset_max_body1 s =
     Inr (s\<lparr>max_peak_power := tab 0 b (\<lambda>j. MInf) (max_peak_power s),
            max_peak_signal := tab 0 b (\<lambda>j. Fin 0) (max_peak_signal s)\<rparr>)"
proof -
  let ?F = "\<lambda>i. s\<lparr>max_peak_power := tab 0 i (\<lambda>j. MInf) (max_peak_power s),
            max_peak_signal := tab 0 i (\<lambda>j. Fin 0) (max_peak_signal s)\<rparr>"
  have "\<exists>s'. for_loop [0..<b] reset_max_body1 s = Inr s' \<and> s' = ?F b"
  proof (rule for_loop_upt_inv)
    show "s = ?F 0" by simp
  next
    fix i s1
    assume "i < b" "s1 = ?F i"
    with assms show "\<exists>s'. reset_max_body1 i s1 = Inr s' \<and> s' = ?F (Suc i)"
      by (simp add: reset_max_body1_def vec_put_def tab_step)
  qed
  then show ?thesis by simp
qed

lemma reset_max_loop2:
  assumes "b \<le> length (visible_peak_power s)"
  shows "for_loop [0..<b] (reset_max_body2 nm) s =
     Inr (s\<lparr>visible_peak_power :=
              tab 0 b (\<lambda>n. if n < nm then Num (Fin 0) else Num MInf) (visible_peak_power s)\<rparr>)"
proof -
  let ?F = "\<lambda>i. s\<lparr>visible_peak_power :=
              tab 0 i (\<lambda>n. if n < nm then Num (Fin 0) else Num MInf) (visible_peak_power s)\<rparr>"
  have "\<exists>s'. for_loop [0..<b] (reset_max_body2 nm) s = Inr s' \<and> s' = ?F b"
  proof (rule for_loop_upt_inv)
    show "s = ?F 0" by simp
  next
    fix i s1
    assume "i < b" "s1 = ?F i"
    with assms show "\<exists>s'. reset_max_body2 nm i s1 = Inr s' \<and> s' = ?F (Suc i)"
      by (simp add: reset_max_body2_def vec_put_def tab_step)
  qed
  then show ?thesis by simp
qed

lemma reset_max_ok:
  assumes "metrics_inv s"
  shows "reset_max s =
     Inr (s\<lparr>max_peak_power := replicate (length (peak_signal s)) MInf,
            max_peak_signal := replicate (length (peak_signal s)) (Fin 0),
            visible_peak_power :=
              visible_baseline (min (length (peak_signal s)) (n_midi (current_meters s)))
                (length (peak_signal s))\<rparr>)"
  using assms tab_const [of "max_peak_power s" MInf] tab_const [of "max_peak_signal s" "Fin 0"]
    tab_all [of "visible_peak_power s"]
  by (simp add: reset_max_def reset_max_loop1 reset_max_loop2 metrics_inv_def Let_def
      visible_baseline_def)

declare shrink_metrics.simps [simp del] grow_metrics.simps [simp del]
  shrink_units.simps [simp del] grow_units.simps [simp del]

lemma shrink_metrics_ok:
  "metrics_inv s \<Longrightarrow> shrink_metrics limit s =
     Inr (s\<lparr>peak_signal := take limit (peak_signal s),
            visible_peak_power := take limit (visible_peak_power s),
            max_peak_signal := take limit (max_peak_signal s),
            max_peak_power := take limit (max_peak_power s)\<rparr>)"
proof (induction limit s rule: shrink_metrics.induct)
  case (1 limit s)
  show ?case
  proof (cases "limit < length (peak_signal s)")
    case True
    with "1.prems" have ne: "\<not> (visible_peak_power s = [] \<or> max_peak_signal s = [] \<or> max_peak_power s = [])"
      by (auto simp: metrics_inv_def)
    let ?s1 = "s\<lparr>peak_signal := butlast (peak_signal s),
                   visible_peak_power := butlast (visible_peak_power s),
                   max_peak_signal := butlast (max_peak_signal s),
                   max_peak_power := butlast (max_peak_power s)\<rparr>"
    have inv1: "metrics_inv ?s1" using "1.prems" by (simp add: metrics_inv_def)
    have "shrink_metrics limit s = shrink_metrics limit ?s1"
      using True ne by (subst shrink_metrics.simps) simp
    also have "\<dots> = Inr (?s1\<lparr>peak_signal := take limit (peak_signal ?s1),
            visible_peak_power := take limit (visible_peak_power ?s1),
            max_peak_signal := take limit (max_peak_signal ?s1),
            max_peak_power := take limit (max_peak_power ?s1)\<rparr>)"
      using "1.IH" [OF True ne inv1] .
    finally show ?thesis
      using True "1.prems" by (simp add: metrics_inv_def take_butlast)
  next
    case False
    with "1.prems" show ?thesis
      by (subst shrink_metrics.simps) (simp add: metrics_inv_def)
  qed
qed

lemma grow_metrics_ok:
  "grow_metrics limit s =
     s\<lparr>peak_signal := peak_signal s @ replicate (limit - length (peak_signal s)) (Fin 0),
       visible_peak_power := visible_peak_power s @ replicate (limit - length (peak_signal s)) (Num MInf),
       max_peak_signal := max_peak_signal s @ replicate (limit - length (peak_signal s)) (Fin 0),
       max_peak_power := max_peak_power s @ replicate (limit - length (peak_signal s)) MInf\<rparr>"
proof (induction limit s rule: grow_metrics.induct)
  case (1 limit s)
  show ?case
  proof (cases "length (peak_signal s) < limit")
    case True
    then have d: "limit - length (peak_signal s) = Suc (limit - Suc (length (peak_signal s)))"
      by simp
    show ?thesis
      using True "1.IH" [OF True]
      by (subst grow_metrics.simps) (simp add: d minus_infinity_def replicate_app_Cons_same)
  next
    case False
    then show ?thesis
      by (subst grow_metrics.simps) simp
  qed
qed

lemma shrink_units_ok:
  "units_inv s \<Longrightarrow> shrink_units na s =
     Inr (s\<lparr>kmeter := take na (kmeter s), iec1meter := take na (iec1meter s),
            iec2meter := take na (iec2meter s), vumeter := take na (vumeter s)\<rparr>)"
proof (induction na s rule: shrink_units.induct)
  case (1 na s)
  show ?case
  proof (cases "na < length (kmeter s)")
    case True
    with "1.prems" have ne: "\<not> (iec1meter s = [] \<or> iec2meter s = [] \<or> vumeter s = [])"
      by (auto simp: units_inv_def)
    let ?s1 = "s\<lparr>kmeter := butlast (kmeter s), iec1meter := butlast (iec1meter s),
                   iec2meter := butlast (iec2meter s), vumeter := butlast (vumeter s)\<rparr>"
    have inv1: "units_inv ?s1" using "1.prems" by (simp add: units_inv_def)
    have "shrink_units na s = shrink_units na ?s1"
      using True ne by (subst shrink_units.simps) simp
    also have "\<dots> = Inr (?s1\<lparr>kmeter := take na (kmeter ?s1), iec1meter := take na (iec1meter ?s1),
            iec2meter := take na (iec2meter ?s1), vumeter := take na (vumeter ?s1)\<rparr>)"
      using "1.IH" [OF True ne inv1] .
    finally show ?thesis
      using True "1.prems" by (simp add: units_inv_def take_butlast)
  next
    case False
    with "1.prems" show ?thesis
      by (subst shrink_units.simps) (simp add: units_inv_def)
  qed
qed

lemma grow_units_ok:
  "grow_units D na s =
     s\<lparr>kmeter := kmeter s @ replicate (na - length (kmeter s)) (dsp_new (Kmeterdsp D)),
       iec1meter := iec1meter s @ replicate (na - length (kmeter s)) (dsp_new (Iec1ppmdsp D)),
       iec2meter := iec2meter s @ replicate (na - length (kmeter s)) (dsp_new (Iec2ppmdsp D)),
       vumeter := vumeter s @ replicate (na - length (kmeter s)) (dsp_new (Vumeterdsp D))\<rparr>"
proof (induction D na s rule: grow_units.induct)
  case (1 D na s)
  show ?case
  proof (cases "length (kmeter s) < na")
    case True
    then have d: "na - length (kmeter s) = Suc (na - Suc (length (kmeter s)))"
      by simp
    show ?thesis
      using True "1.IH" [OF True]
      by (subst grow_units.simps) (simp add: d replicate_app_Cons_same)
  next
    case False
    then show ?thesis
      by (subst grow_units.simps) simp
  qed
qed

lemma length_resized [simp]: "length (resized c n v) = n"
  by (simp add: resized_def)

lemma resize_metrics_ok:
  assumes "metrics_inv s"
  shows "bindE (shrink_metrics limit s) (\<lambda>s. Inr (grow_metrics limit s)) =
     Inr (s\<lparr>peak_signal := resized (Fin 0) limit (peak_signal s),
            visible_peak_power := resized (Num MInf) limit (visible_peak_power s),
            max_peak_signal := resized (Fin 0) limit (max_peak_signal s),
            max_peak_power := resized MInf limit (max_peak_power s)\<rparr>)"
  using assms
  by (simp add: shrink_metrics_ok grow_metrics_ok resized_def metrics_inv_def min_def)

lemma resize_units_ok:
  assumes "units_inv s"
  shows "bindE (shrink_units na s) (\<lambda>s. Inr (grow_units D na s)) =
     Inr (s\<lparr>kmeter := resized (dsp_new (Kmeterdsp D)) na (kmeter s),
            iec1meter := resized (dsp_new (Iec1ppmdsp D)) na (iec1meter s),
            iec2meter := resized (dsp_new (Iec2ppmdsp D)) na (iec2meter s),
            vumeter := resized (dsp_new (Vumeterdsp D)) na (vumeter s)\<rparr>)"
  using assms
  by (simp add: shrink_units_ok grow_units_ok resized_def units_inv_def min_def)

lemma reset_max_channels_ok:
  assumes "metrics_inv s" "units_inv s"
  shows "reset_max_channels D s chn =
     Inr (s\<lparr>peak_signal := replicate (n_total chn) (Fin 0),
            visible_peak_power :=
              visible_baseline (min (n_total chn) (n_midi (current_meters s))) (n_total chn),
            max_peak_signal := replicate (n_total chn) (Fin 0),
            max_peak_power := replicate (n_total chn) MInf,
            kmeter := resized_units (Kmeterdsp D) (n_audio chn) (kmeter s),
            iec1meter := resized_units (Iec1ppmdsp D) (n_audio chn) (iec1meter s),
            iec2meter := resized_units (Iec2ppmdsp D) (n_audio chn) (iec2meter s),
            vumeter := resized_units (Vumeterdsp D) (n_audio chn) (vumeter s)\<rparr>)"
proof -
  define limit where "limit = n_total chn"
  define na where "na = n_audio chn"
  define s2 where "s2 = s\<lparr>peak_signal := resized (Fin 0) limit (peak_signal s),
            visible_peak_power := resized (Num MInf) limit (visible_peak_power s),
            max_peak_signal := resized (Fin 0) limit (max_peak_signal s),
            max_peak_power := resized MInf limit (max_peak_power s)\<rparr>"
  have r2: "bindE (shrink_metrics limit s) (\<lambda>s. Inr (grow_metrics limit s)) = Inr s2"
    unfolding s2_def by (rule resize_metrics_ok [OF assms(1)])
  have u2: "units_inv s2" using assms(2) by (simp add: s2_def units_inv_def)
  have a2: "length (peak_signal s2) = limit \<and> length (visible_peak_power s2) = limit
                     \<and> length (max_peak_signal s2) = limit \<and> length (max_peak_power s2) = limit"
    by (simp add: s2_def)
  define s4 where "s4 = s2\<lparr>kmeter := resized (dsp_new (Kmeterdsp D)) na (kmeter s2),
            iec1meter := resized (dsp_new (Iec1ppmdsp D)) na (iec1meter s2),
            iec2meter := resized (dsp_new (Iec2ppmdsp D)) na (iec2meter s2),
            vumeter := resized (dsp_new (Vumeterdsp D)) na (vumeter s2)\<rparr>"
  have r4: "bindE (shrink_units na s2) (\<lambda>s. Inr (grow_units D na s)) = Inr s4"
    unfolding s4_def by (rule resize_units_ok [OF u2])
  have a4: "length (kmeter s4) = na \<and> length (iec1meter s4) = na
                     \<and> length (iec2meter s4) = na \<and> length (vumeter s4) = na"
    by (simp add: s4_def)
  have u4: "units_inv s4" using a4 by (simp add: units_inv_def)
  define s5 where "s5 = s4\<lparr>peak_signal := replicate (length (peak_signal s4)) (Fin 0),
            kmeter := map (dsp_reset (Kmeterdsp D)) (kmeter s4),
            iec1meter := map (dsp_reset (Iec1ppmdsp D)) (iec1meter s4),
            iec2meter := map (dsp_reset (Iec2ppmdsp D)) (iec2meter s4),
            vumeter := map (dsp_reset (Vumeterdsp D)) (vumeter s4)\<rparr>"
  have r5: "reset D s4 = Inr s5"
    unfolding s5_def by (rule reset_ok [OF u4])
  have m5: "metrics_inv s5" by (simp add: s5_def s4_def s2_def metrics_inv_def)
  have r6: "reset_max s5 = Inr (s5\<lparr>max_peak_power := replicate (length (peak_signal s5)) MInf,
            max_peak_signal := replicate (length (peak_signal s5)) (Fin 0),
            visible_peak_power :=
              visible_baseline (min (length (peak_signal s5)) (n_midi (current_meters s5)))
                (length (peak_signal s5))\<rparr>)"
    by (rule reset_max_ok [OF m5])
  have sh: "shrink_metrics limit s = Inr x \<Longrightarrow> grow_metrics limit x = s2" for x
    using r2 by simp
  have sh2: "shrink_units na s2 = Inr x \<Longrightarrow> grow_units D na x = s4" for x
    using r4 by simp
  obtain x1 where x1: "shrink_metrics limit s = Inr x1"
    using r2 by (cases "shrink_metrics limit s") simp_all
  obtain x2 where x2: "shrink_units na s2 = Inr x2"
    using r4 by (cases "shrink_units na s2") simp_all
  have "reset_max_channels D s chn = reset_max s5"
    unfolding reset_max_channels_def Let_def limit_def [symmetric] na_def [symmetric]
    by (simp only: x1 bindE_Inr sh [OF x1] a2 assert_def if_True simp_thms x2 sh2 [OF x2] a4 r5)
  also note r6
  finally show ?thesis
    by (simp add: s5_def s4_def s2_def resized_units_def limit_def na_def)
qed

section \<open>What the calls keep\<close>

lemma bindE_eq_Inr: "bindE m f = Inr y \<longleftrightarrow> (\<exists>x. m = Inr x \<and> f x = Inr y)"
  by (cases m) simp_all

lemma vec_at_eq_Inr: "vec_at v i = Inr x \<longleftrightarrow> i < length v \<and> x = v ! i"
  by (auto simp: vec_at_def)

lemma vec_put_eq_Inr: "vec_put v i x = Inr v' \<longleftrightarrow> i < length v \<and> v' = v[i := x]"
  by (auto simp: vec_put_def)

lemmas chain_simps = bindE_eq_Inr vec_at_eq_Inr vec_put_eq_Inr

lemma keeps_max_refl: "keeps_max s s"
  by (simp add: keeps_max_def)

lemma keeps_max_trans: "keeps_max s s1 \<Longrightarrow> keeps_max s1 s2 \<Longrightarrow> keeps_max s s2"
  by (simp add: keeps_max_def)

lemma zero_peak_keeps: "zero_peak i s = Inr s' \<Longrightarrow> keeps_max s s'"
  by (auto simp: zero_peak_def chain_simps keeps_max_def sizes_def)

lemma unit_reset_length: "unit_reset d v n = Inr v' \<Longrightarrow> length v' = length v"
  by (auto simp: unit_reset_def chain_simps)

lemma unit_process_length: "unit_process d buf nf v n = Inr v' \<Longrightarrow> length v' = length v"
  by (auto simp: unit_process_def chain_simps)

lemma reset_body_keeps: "reset_body D i s = Inr s' \<Longrightarrow> keeps_max s s'"
  by (auto simp: reset_body_def bindE_eq_Inr keeps_max_def sizes_def dest!: unit_reset_length)

lemma for_loop_keeps:
  assumes "for_loop xs body s = Inr s'"
    and "\<And>i s s'. body i s = Inr s' \<Longrightarrow> keeps_max s s'"
  shows "keeps_max s s'"
proof -
  have "keeps_max s s'"
    by (rule for_loop_preserves [OF assms(1), where P = "keeps_max s"])
       (auto intro: keeps_max_refl keeps_max_trans assms(2))
  then show ?thesis .
qed

lemma reset_keeps:
  assumes "reset D s = Inr s'"
  shows "keeps_max s s'"
proof -
  from assms obtain s1 where s1: "for_loop [0..<length (peak_signal s)] zero_peak s = Inr s1"
    and s2: "for_loop [0..<length (kmeter s1)] (reset_body D) s1 = Inr s'"
    by (auto simp: reset_def bindE_eq_Inr)
  have "keeps_max s s1" using s1 by (rule for_loop_keeps) (rule zero_peak_keeps)
  moreover have "keeps_max s1 s'" using s2 by (rule for_loop_keeps) (rule reset_body_keeps)
  ultimately show ?thesis by (rule keeps_max_trans)
qed

lemma run_midi_body_keeps: "run_midi_body F bufs i s = Inr s' \<Longrightarrow> keeps_max s s'"
  by (auto simp: run_midi_body_def chain_simps keeps_max_def sizes_def Let_def)

lemma opt_process_length:
  "(if c then unit_process d buf nf v n else Inr v) = Inr v' \<Longrightarrow> length v' = length v"
  by (auto split: if_splits dest: unit_process_length)

lemma run_audio_body_keeps:
  assumes "run_audio_body D bufs nf nm i s = Inr s'"
  shows "keeps_max s s'"
proof -
  from assms obtain buf :: AudioBuffer and p k i1 i2 vu
    where p: "(if silent buf then vec_put (peak_signal s) (nm + i) (Fin 0)
             else bindE (vec_at (peak_signal s) (nm + i)) (\<lambda>old.
                  vec_put (peak_signal s) (nm + i) (compute_peak (data buf) nf old))) = Inr p"
      and k: "(if meter_type s \<inter> K_bits \<noteq> {}
             then unit_process (Kmeterdsp D) (data buf) nf (kmeter s) i
             else Inr (kmeter s)) = Inr k"
      and i1: "(if meter_type s \<inter> IEC1_bits \<noteq> {}
             then unit_process (Iec1ppmdsp D) (data buf) nf (iec1meter s) i
             else Inr (iec1meter s)) = Inr i1"
      and i2: "(if meter_type s \<inter> IEC2_bits \<noteq> {}
             then unit_process (Iec2ppmdsp D) (data buf) nf (iec2meter s) i
             else Inr (iec2meter s)) = Inr i2"
      and vu: "(if meter_type s \<inter> VU_bits \<noteq> {}
             then unit_process (Vumeterdsp D) (data buf) nf (vumeter s) i
             else Inr (vumeter s)) = Inr vu"
      and s': "s\<lparr>peak_signal := p, kmeter := k, iec1meter := i1, iec2meter := i2, vumeter := vu\<rparr> = s'"
    unfolding run_audio_body_def Let_def bindE_eq_Inr sum.inject
    by blast
  have "length p = length (peak_signal s)"
    using p by (auto simp: chain_simps split: if_splits)
  then show ?thesis
    using opt_process_length [OF k] opt_process_length [OF i1] opt_process_length [OF i2]
      opt_process_length [OF vu]
    by (simp add: s' [symmetric] keeps_max_def sizes_def)
qed

lemma keeps_max_active: "keeps_max s (s\<lparr>active := b\<rparr>)"
  by (simp add: keeps_max_def sizes_def)

lemma run_keeps:
  assumes "run D F s bufs nf = Inr s'"
  shows "keeps_max s s'"
proof (cases "\<not> active s \<and> \<not> pending_active s")
  case True
  with assms show ?thesis by (simp add: run_def keeps_max_refl)
next
  case False
  define na where "na = min (n_audio (current_meters s)) (n_audio (count bufs))"
  define nm where "nm = min (n_midi (current_meters s)) (n_midi (count bufs))"
  from assms False obtain s1 s2 s3
    where s1: "for_loop [0..<nm] (run_midi_body F bufs) s = Inr s1"
      and s2: "for_loop [0..<na] (run_audio_body D bufs nf nm) s1 = Inr s2"
      and s3: "for_loop [nm + na..<length (peak_signal s2)] zero_peak s2 = Inr s3"
      and s': "s' = s3\<lparr>active := pending_active s3\<rparr>"
    unfolding run_def Let_def na_def nm_def by (auto simp: bindE_eq_Inr)
  have "keeps_max s s1" using s1 by (rule for_loop_keeps) (rule run_midi_body_keeps)
  moreover have "keeps_max s1 s2" using s2 by (rule for_loop_keeps) (rule run_audio_body_keeps)
  moreover have "keeps_max s2 s3" using s3 by (rule for_loop_keeps) (rule zero_peak_keeps)
  moreover have "keeps_max s3 s'" unfolding s' by (rule keeps_max_active)
  ultimately show ?thesis by (blast intro: keeps_max_trans)
qed

lemma reset_units_length: "reset_units d na v = Inr v' \<Longrightarrow> length v' = length v"
  unfolding reset_units_def
  by (erule for_loop_preserves [where P = "\<lambda>x. length x = length v"])
     (auto dest: unit_reset_length)

lemma set_type_keeps:
  assumes "set_type D s t = Inr s'"
  shows "keeps_max s s'"
proof (cases "t = meter_type s")
  case True
  with assms show ?thesis by (simp add: set_type_def keeps_max_refl)
next
  case False
  define na where "na = n_audio (current_meters s)"
  from assms False obtain s1 s2 s3
    where s1: "(if t \<inter> K_bits \<noteq> {}
               then bindE (reset_units (Kmeterdsp D) na (kmeter (s\<lparr>meter_type := t\<rparr>)))
                      (\<lambda>v. Inr (s\<lparr>meter_type := t, kmeter := v\<rparr>))
               else Inr (s\<lparr>meter_type := t\<rparr>)) = Inr s1"
      and s2: "(if t \<inter> IEC1_bits \<noteq> {}
               then bindE (reset_units (Iec1ppmdsp D) na (iec1meter s1)) (\<lambda>v. Inr (s1\<lparr>iec1meter := v\<rparr>))
               else Inr s1) = Inr s2"
      and s3: "(if t \<inter> IEC2_bits \<noteq> {}
               then bindE (reset_units (Iec2ppmdsp D) na (iec2meter s2)) (\<lambda>v. Inr (s2\<lparr>iec2meter := v\<rparr>))
               else Inr s2) = Inr s3"
      and s4: "(if t \<inter> VU_bits \<noteq> {}
               then bindE (reset_units (Vumeterdsp D) na (vumeter s3)) (\<lambda>v. Inr (s3\<lparr>vumeter := v\<rparr>))
               else Inr s3) = Inr s'"
    by (simp add: set_type_def Let_def na_def bindE_eq_Inr cong: if_cong) blast
  have "keeps_max s s1" using s1
    by (auto simp: bindE_eq_Inr keeps_max_def sizes_def split: if_splits dest!: reset_units_length)
  moreover have "keeps_max s1 s2" using s2
    by (auto simp: bindE_eq_Inr keeps_max_def sizes_def split: if_splits dest!: reset_units_length)
  moreover have "keeps_max s2 s3" using s3
    by (auto simp: bindE_eq_Inr keeps_max_def sizes_def split: if_splits dest!: reset_units_length)
  moreover have "keeps_max s3 s'" using s4
    by (auto simp: bindE_eq_Inr keeps_max_def sizes_def split: if_splits dest!: reset_units_length)
  ultimately show ?thesis by (blast intro: keeps_max_trans)
qed

lemma keeps_max_wf: "keeps_max s s' \<Longrightarrow> wf s \<Longrightarrow> wf s'"
  by (simp add: keeps_max_def sizes_def wf_def metrics_inv_def units_inv_def midi_max_baseline_def)

lemma list_all2_le_update:
  fixes xs ys :: "'a::preorder list"
  assumes "list_all2 (\<le>) xs ys" "n < length ys" "ys ! n \<le> y"
  shows "list_all2 (\<le>) xs (ys[n := y])"
  using assms
  by (auto simp: list_all2_conv_all_nth nth_list_update intro: order_trans)

lemma list_all2_le_refl: "list_all2 (\<le>) (xs :: 'a::preorder list) xs"
  by (simp add: list_all2_conv_all_nth)

lemma list_all2_le_trans:
  fixes xs :: "'a::preorder list"
  shows "list_all2 (\<le>) xs ys \<Longrightarrow> list_all2 (\<le>) ys zs \<Longrightarrow> list_all2 (\<le>) xs zs"
  using list_all2_trans [of "(\<le>)" "(\<le>)" "(\<le>)" xs ys zs] order_trans by blast

lemma meter_body_max:
  assumes "meter_body F dB nm mf af n s = Inr s'"
  shows "sizes s' = sizes s \<and> current_meters s' = current_meters s
     \<and> n < length (max_peak_signal s) \<and> n < length (max_peak_power s)
     \<and> (if n < nm
        then max_peak_signal s' = (max_peak_signal s)[n := Fin 0]
           \<and> max_peak_power s' = (max_peak_power s)[n := MInf]
        else (\<exists>x. max_peak_signal s' = (max_peak_signal s)[n := x] \<and> max_peak_signal s ! n \<le> x)
           \<and> (\<exists>y. max_peak_power s' = (max_peak_power s)[n := y] \<and> max_peak_power s ! n \<le> y))"
proof (cases "n < nm")
  case True
  with assms show ?thesis
    unfolding meter_body_def by (auto simp: chain_simps sizes_def)
next
  case False
  with assms show ?thesis
    unfolding meter_body_def by (auto simp: chain_simps sizes_def Let_def split: if_splits)
qed

lemma meter_body_keeps:
  assumes "meter_body F dB nm mf af n s1 = Inr s2" and "meter_keeps s s1"
    and nm: "nm = min (length (peak_signal s)) (n_midi (current_meters s))"
  shows "meter_keeps s s2"
proof -
  note b = meter_body_max [OF assms(1)]
  from assms(2) have k: "sizes s1 = sizes s" "current_meters s1 = current_meters s"
    "midi_max_baseline s1" "list_all2 (\<le>) (max_peak_signal s) (max_peak_signal s1)"
    "list_all2 (\<le>) (max_peak_power s) (max_peak_power s1)"
    by (simp_all add: meter_keeps_def)
  from k(1) have len: "length (peak_signal s1) = length (peak_signal s)"
    by (simp add: sizes_def)
  from k(3) have base: "take nm (max_peak_signal s1) = replicate nm (Fin 0)"
    "take nm (max_peak_power s1) = replicate nm MInf"
    by (simp_all add: midi_max_baseline_def Let_def len k(2) nm)
  from b have len2: "length (peak_signal s2) = length (peak_signal s)"
    by (simp add: sizes_def len)
  show ?thesis
  proof (cases "n < nm")
    case True
    with b have m: "max_peak_signal s2 = (max_peak_signal s1)[n := Fin 0]"
      "max_peak_power s2 = (max_peak_power s1)[n := MInf]"
      and n: "n < length (max_peak_signal s1)" "n < length (max_peak_power s1)"
      by simp_all
    have "max_peak_signal s1 ! n = Fin 0"
      using True base(1) by (metis nth_replicate nth_take)
    moreover have "max_peak_power s1 ! n = MInf"
      using True base(2) by (metis nth_replicate nth_take)
    ultimately have "max_peak_signal s2 = max_peak_signal s1" "max_peak_power s2 = max_peak_power s1"
      using m by (metis list_update_id)+
    with b k show ?thesis
      by (simp add: meter_keeps_def midi_max_baseline_def Let_def sizes_def)
  next
    case False
    with b obtain x y where m: "max_peak_signal s2 = (max_peak_signal s1)[n := x]"
      "max_peak_signal s1 ! n \<le> x" "max_peak_power s2 = (max_peak_power s1)[n := y]"
      "max_peak_power s1 ! n \<le> y"
      and n: "n < length (max_peak_signal s1)" "n < length (max_peak_power s1)"
      by auto
    have "list_all2 (\<le>) (max_peak_signal s) (max_peak_signal s2)"
      unfolding m(1) using k(4) n(1) m(2) by (rule list_all2_le_update)
    moreover have "list_all2 (\<le>) (max_peak_power s) (max_peak_power s2)"
      unfolding m(3) using k(5) n(2) m(4) by (rule list_all2_le_update)
    moreover have "midi_max_baseline s2"
      using False base b m by (simp add: midi_max_baseline_def Let_def len2 k(2) nm [symmetric])
    ultimately show ?thesis
      using b k by (simp add: meter_keeps_def)
  qed
qed

lemma meter_keeps_refl: "midi_max_baseline s \<Longrightarrow> meter_keeps s s"
  by (simp add: meter_keeps_def list_all2_le_refl)

lemma meter_meter_keeps:
  assumes "meter F dB falloff s = Inr s'" "midi_max_baseline s"
  shows "meter_keeps s s'"
proof (cases "\<not> active s \<or> length (visible_peak_power s) \<noteq> length (peak_signal s)
              \<or> length (max_peak_power s) \<noteq> length (peak_signal s)
              \<or> length (max_peak_signal s) \<noteq> length (peak_signal s)")
  case True
  with assms have "s' = s" by (auto simp: meter_def split: if_splits)
  with assms(2) show ?thesis by (simp add: meter_keeps_refl)
next
  case False
  define nm where "nm = min (length (peak_signal s)) (n_midi (current_meters s))"
  from assms(1) False obtain limit mf af
    where loop: "for_loop [0..<limit] (meter_body F dB nm mf af) s = Inr s'"
    by (auto simp: meter_def Let_def nm_def)
  show ?thesis
    by (rule for_loop_preserves [OF loop, where P = "meter_keeps s"])
       (auto intro: meter_keeps_refl assms(2) meter_body_keeps simp: nm_def)
qed

lemma reset_max_wf:
  assumes "metrics_inv s" "units_inv s" "reset_max s = Inr s'"
  shows "wf s'"
  using assms(3) assms(1,2) unfolding reset_max_ok [OF assms(1)]
  by (auto simp: wf_def metrics_inv_def units_inv_def midi_max_baseline_def Let_def
      visible_baseline_def)

lemma reset_max_channels_wf:
  assumes "metrics_inv s" "units_inv s" "reset_max_channels D s chn = Inr s'"
  shows "wf s'"
  using assms(3) unfolding reset_max_channels_ok [OF assms(1,2)]
  by (auto simp: wf_def metrics_inv_def units_inv_def midi_max_baseline_def Let_def
      visible_baseline_def resized_units_def)

lemma reflect_body1_keeps: "reflect_body1 i s = Inr s' \<Longrightarrow> keeps_max s s'"
  by (auto simp: reflect_body1_def keeps_max_refl split: if_splits dest: zero_peak_keeps)

lemma reflect_body2_keeps: "reflect_body2 D i s = Inr s' \<Longrightarrow> keeps_max s s'"
  by (auto simp: reflect_body2_def keeps_max_refl split: if_splits dest: reset_body_keeps)

lemma reflect_inputs_wf:
  assumes "wf s" "reflect_inputs D s cin = Inr s'"
  shows "wf s'"
proof -
  from assms(2) obtain s1 s2
    where s1: "for_loop [n_total cin..<n_total (current_meters s)] reflect_body1 s = Inr s1"
      and s2: "for_loop [n_audio cin..<n_audio (current_meters s1)] (reflect_body2 D) s1 = Inr s2"
      and s3: "reset_max (s2\<lparr>current_meters := cin\<rparr>) = Inr s'"
    by (auto simp: reflect_inputs_def bindE_eq_Inr)
  have "keeps_max s s1" using s1 by (rule for_loop_keeps) (rule reflect_body1_keeps)
  moreover have "keeps_max s1 s2" using s2 by (rule for_loop_keeps) (rule reflect_body2_keeps)
  ultimately have "wf s2" using assms(1) by (blast intro: keeps_max_wf)
  then have "metrics_inv (s2\<lparr>current_meters := cin\<rparr>)" "units_inv (s2\<lparr>current_meters := cin\<rparr>)"
    by (simp_all add: wf_def metrics_inv_def units_inv_def)
  then show ?thesis using s3 by (rule reset_max_wf)
qed

lemma wf_new: "wf PeakMeter_new"
  by (simp add: wf_def metrics_inv_def units_inv_def midi_max_baseline_def PeakMeter_new_def)

lemma meter_keeps_wf: "meter_keeps s s' \<Longrightarrow> wf s \<Longrightarrow> wf s'"
  by (simp add: meter_keeps_def sizes_def wf_def metrics_inv_def units_inv_def)

lemma exec_wf:
  assumes "wf s" "exec D F dB base s c = Inr s'"
  shows "wf s'"
proof (cases c)
  case (Run bufs nf)
  with assms show ?thesis by (auto simp: exec_def dest: run_keeps keeps_max_wf)
next
  case Reset
  with assms show ?thesis by (auto simp: exec_def dest: reset_keeps keeps_max_wf)
next
  case ResetMax
  with assms have "reset_max s = Inr s'" "metrics_inv s" "units_inv s"
    by (simp_all add: exec_def wf_def)
  then show ?thesis by (blast intro: reset_max_wf)
next
  case (ConfigureIO cin cout)
  show ?thesis
  proof (cases "cout = cin")
    case True
    with assms ConfigureIO
    have "reset_max_channels D (s\<lparr>current_meters := cin\<rparr>) cin = Inr s'"
      by (auto simp: exec_def configure_io_def bindE_eq_Inr)
    moreover from assms(1)
    have "metrics_inv (s\<lparr>current_meters := cin\<rparr>)" "units_inv (s\<lparr>current_meters := cin\<rparr>)"
      by (simp_all add: wf_def metrics_inv_def units_inv_def)
    ultimately show ?thesis by (blast intro: reset_max_channels_wf)
  next
    case False
    with assms ConfigureIO show ?thesis by (simp add: exec_def configure_io_def)
  qed
next
  case (ReflectInputs cin)
  with assms show ?thesis by (auto simp: exec_def intro: reflect_inputs_wf)
next
  case (ResetMaxChannels chn)
  with assms have "reset_max_channels D s chn = Inr s'" "metrics_inv s" "units_inv s"
    by (simp_all add: exec_def wf_def)
  then show ?thesis by (blast intro: reset_max_channels_wf)
next
  case (Meter falloff)
  with assms have "meter F dB falloff s = Inr s'" "midi_max_baseline s"
    by (simp_all add: exec_def wf_def)
  then have "meter_keeps s s'" by (rule meter_meter_keeps)
  then show ?thesis using assms(1) by (rule meter_keeps_wf)
next
  case (SetType t)
  with assms show ?thesis by (auto simp: exec_def dest: set_type_keeps keeps_max_wf)
next
  case (SetPendingActive b)
  with assms show ?thesis
    by (auto simp: exec_def wf_def metrics_inv_def units_inv_def midi_max_baseline_def)
qed

lemma reachable_wf: "reachable D F dB base s \<Longrightarrow> wf s"
  by (induction rule: reachable.induct) (auto intro: wf_new exec_wf)
section \<open>Reconfiguration\<close>

lemma upt_3: "[0..<3] = [0, 1, 2]"
  by (simp add: upt_rec)

text \<open>The layouts of the examples.\<close>

lemma counts_1_2:
  "n_midi \<lparr> midi_count = 1, audio_count = 2 \<rparr> = 1"
  "n_audio \<lparr> midi_count = 1, audio_count = 2 \<rparr> = 2"
  "n_total \<lparr> midi_count = 1, audio_count = 2 \<rparr> = 3"
  by (simp_all add: n_midi_def n_audio_def n_total_def)

lemma counts_0_1:
  "n_midi \<lparr> midi_count = 0, audio_count = 1 \<rparr> = 0"
  "n_audio \<lparr> midi_count = 0, audio_count = 1 \<rparr> = 1"
  "n_total \<lparr> midi_count = 0, audio_count = 1 \<rparr> = 1"
  by (simp_all add: n_midi_def n_audio_def n_total_def)

lemma counts_0_2:
  "n_midi \<lparr> midi_count = 0, audio_count = 2 \<rparr> = 0"
  "n_audio \<lparr> midi_count = 0, audio_count = 2 \<rparr> = 2"
  "n_total \<lparr> midi_count = 0, audio_count = 2 \<rparr> = 2"
  by (simp_all add: n_midi_def n_audio_def n_total_def)

lemma counts_2_2:
  "n_midi \<lparr> midi_count = 2, audio_count = 2 \<rparr> = 2"
  "n_audio \<lparr> midi_count = 2, audio_count = 2 \<rparr> = 2"
  "n_total \<lparr> midi_count = 2, audio_count = 2 \<rparr> = 4"
  by (simp_all add: n_midi_def n_audio_def n_total_def)

lemma counts_wide:
  "n_midi wide_layout = 4294967295" "n_audio wide_layout = 1" "n_total wide_layout = 0"
  by (simp_all add: n_midi_def n_audio_def n_total_def wide_layout_def)

lemma count_example_bufs: "n_midi (count example_bufs) = 1" "n_audio (count example_bufs) = 2"
  by (simp_all add: n_midi_def n_audio_def count_def example_bufs_def)

lemma count_silent_bufs: "n_midi (count silent_bufs) = 0" "n_audio (count silent_bufs) = 1"
  by (simp_all add: n_midi_def n_audio_def count_def silent_bufs_def)

lemma count_no_bufs: "n_midi (count no_bufs) = 0" "n_audio (count no_bufs) = 0"
  by (simp_all add: n_midi_def n_audio_def count_def no_bufs_def)

lemma count_audio_only_bufs:
  "n_midi (count audio_only_bufs) = 0" "n_audio (count audio_only_bufs) = 2"
  by (simp_all add: n_midi_def n_audio_def count_def audio_only_bufs_def)

lemmas example_counts = counts_1_2 counts_0_1 counts_0_2 counts_2_2 counts_wide
  count_example_bufs count_silent_bufs count_no_bufs count_audio_only_bufs

text \<open>The total is the sum of the counts when the sum is below \<open>2 ^ 32\<close>.\<close>

lemma n_total_sum: "n_midi c + n_audio c < 2 ^ 32 \<Longrightarrow> n_total c = n_midi c + n_audio c"
  by (simp add: n_total_def n_midi_def n_audio_def unat_add_lem [THEN iffD1])



lemma configure_io_midi_stereo:
  "configure_io count_dsps base PeakMeter_new \<lparr> midi_count = 1, audio_count = 2 \<rparr> \<lparr> midi_count = 1, audio_count = 2 \<rparr>
     = Inr (base \<lparr> midi_count = 1, audio_count = 2 \<rparr> \<lparr> midi_count = 1, audio_count = 2 \<rparr>, midi_stereo)"
proof -
  have "metrics_inv (PeakMeter_new\<lparr>current_meters := \<lparr> midi_count = 1, audio_count = 2 \<rparr>\<rparr> :: nat PeakMeter)"
    "units_inv (PeakMeter_new\<lparr>current_meters := \<lparr> midi_count = 1, audio_count = 2 \<rparr>\<rparr> :: nat PeakMeter)"
    by (simp_all add: metrics_inv_def units_inv_def PeakMeter_new_def)
  then show ?thesis
    by (simp add: configure_io_def reset_max_channels_ok)
       (simp add: PeakMeter_new_def midi_stereo_def counts_1_2 visible_baseline_def
          resized_units_def resized_def count_dsps_def count_dsp_def upt_3 numeral_3_eq_3 numeral_2_eq_2)
qed

lemma reachable_midi_stereo: "reachable count_dsps F dB base midi_stereo"
proof -
  have "exec count_dsps F dB base PeakMeter_new
          (ConfigureIO \<lparr> midi_count = 1, audio_count = 2 \<rparr> \<lparr> midi_count = 1, audio_count = 2 \<rparr>) = Inr midi_stereo"
    by (simp only: exec_def op.case configure_io_midi_stereo bindE_Inr snd_conv)
  with reachable.new show ?thesis by (rule reachable.step)
qed
section \<open>Reduction\<close>

lemma MInf_least [simp]: "MInf \<le> x"
  by (cases x) simp_all

lemma max_MInf [simp]: "max x MInf = x" "max MInf x = x"
  by (simp_all add: max_def antisym)

lemma not_less_MInf [simp]: "\<not> x < MInf"
  by (cases x) simp_all

lemma nmax_MInf [simp]: "nmax x (Num MInf) = x"
  by (cases x) (simp_all add: nmax_def)


lemma meter_body_frame:
  assumes "meter_body F dB nm mf af n s = Inr s'"
  shows "sizes s' = sizes s \<and> active s' = active s \<and> pending_active s' = pending_active s
     \<and> meter_type s' = meter_type s \<and> current_meters s' = current_meters s
     \<and> kmeter s' = kmeter s \<and> iec1meter s' = iec1meter s \<and> iec2meter s' = iec2meter s
     \<and> vumeter s' = vumeter s"
proof (cases "n < nm")
  case True
  with assms show ?thesis
    unfolding meter_body_def by (auto simp: chain_simps sizes_def)
next
  case False
  with assms show ?thesis
    unfolding meter_body_def by (auto simp: chain_simps sizes_def Let_def split: if_splits)
qed









lemma keeps_max_meter_keeps: "keeps_max s s' \<Longrightarrow> midi_max_baseline s \<Longrightarrow> meter_keeps s s'"
  by (simp add: keeps_max_def meter_keeps_def midi_max_baseline_def sizes_def list_all2_le_refl)

lemma meter_keeps_trans: "meter_keeps s s1 \<Longrightarrow> meter_keeps s1 s2 \<Longrightarrow> meter_keeps s s2"
  by (auto simp: meter_keeps_def intro: list_all2_le_trans)

lemma exec_meter_keeps:
  assumes "wf s" "no_max_reset c" "exec D F dB base s c = Inr s'"
  shows "meter_keeps s s'"
proof -
  from assms(1) have b: "midi_max_baseline s" by (simp add: wf_def)
  show ?thesis
  proof (cases c)
    case (Run bufs nf)
    with assms(3) b show ?thesis by (auto simp: exec_def dest: run_keeps keeps_max_meter_keeps)
  next
    case Reset
    with assms(3) b show ?thesis by (auto simp: exec_def dest: reset_keeps keeps_max_meter_keeps)
  next
    case (Meter falloff)
    with assms(3) b show ?thesis by (auto simp: exec_def dest: meter_meter_keeps)
  next
    case (SetType t)
    with assms(3) b show ?thesis by (auto simp: exec_def dest: set_type_keeps keeps_max_meter_keeps)
  next
    case (SetPendingActive b')
    with assms(3) b show ?thesis
      by (auto simp: exec_def meter_keeps_def sizes_def midi_max_baseline_def list_all2_le_refl)
  qed (use assms(2) in simp_all)
qed

lemma execs_meter_keeps:
  assumes "wf s" "list_all no_max_reset cs" "execs D F dB base s cs = Inr s'"
  shows "meter_keeps s s'"
  using assms
proof (induction cs arbitrary: s)
  case Nil
  then show ?case by (simp add: meter_keeps_refl wf_def)
next
  case (Cons c cs)
  from Cons.prems(3) obtain s1 where s1: "exec D F dB base s c = Inr s1"
    and rest: "execs D F dB base s1 cs = Inr s'"
    by (auto split: sum.splits)
  from Cons.prems(1,2) s1 have "meter_keeps s s1" by (auto intro: exec_meter_keeps)
  moreover have "wf s1" using Cons.prems(1) s1 by (rule exec_wf)
  then have "meter_keeps s1 s'" using Cons.prems(2) rest by (auto intro: Cons.IH)
  ultimately show ?case by (rule meter_keeps_trans)
qed

lemma upt_0_2: "[0..<2] = [0, 1]"
  by (simp add: upt_rec)


lemma float_64: "to_float example_arith (to_double example_arith (64 / 127)) = 2113665 / 4194304"
  by (simp add: example_arith_def nearest_def round_def)

lemma falloff_half:
  "midi_meter_falloff example_arith (1 / 2) = Num (Fin (5368709 / 1073741824))"
  by (simp add: midi_meter_falloff_def example_arith_def)

lemma falloff_0: "midi_meter_falloff example_arith 0 = Num (Fin 0)"
  by (simp add: midi_meter_falloff_def example_arith_def)

lemma run_example: "run count_dsps example_arith midi_stereo example_bufs 1 = Inr captured"
  unfolding run_def Let_def count_example_bufs
  by (simp add: midi_stereo_def counts_1_2 example_bufs_def captured_def float_64 Let_def
      run_midi_body_def run_audio_body_def vec_at_def vec_put_def compute_peak_def
      K_bits_def IEC1_bits_def IEC2_bits_def VU_bits_def upt_0_2 upt_3)

lemma meter_example: "meter example_arith decibel (1 / 2) captured = Inr after_tick"
  unfolding meter_def Let_def falloff_half
  by (simp add: captured_def after_tick_def midi_stereo_def counts_1_2 Let_def
      audio_meter_falloff_def meter_body_def vec_at_def vec_put_def decibel_def
      minus_infinity_def upt_3 example_arith_def)
section \<open>Query\<close>

lemma unit_level_ok:
  "unit_level dB d MTR s n = Inr (Num (family_level dB d MTR (n_midi (current_meters s)) n))"
  by (auto simp: unit_level_def CHECKSIZE_def family_level_def vec_at_def minus_infinity_def Let_def)

section \<open>Capture\<close>



lemma processed_0 [simp]: "processed sel d bufs nf 0 v = v"
  by (simp add: processed_def)
















section \<open>The example meters are meters a program builds\<close>

lemma reachable_execs:
  "reachable D F dB base s \<Longrightarrow> execs D F dB base s cs = Inr s' \<Longrightarrow> reachable D F dB base s'"
proof (induction cs arbitrary: s)
  case Nil
  then show ?case by simp
next
  case (Cons c cs)
  from Cons.prems(2) obtain s1 where s1: "exec D F dB base s c = Inr s1"
    and rest: "execs D F dB base s1 cs = Inr s'"
    by (auto split: sum.splits)
  from Cons.prems(1) s1 have "reachable D F dB base s1" by (rule reachable.step)
  then show ?case using rest by (rule Cons.IH)
qed

lemma built_reachable: "built D F dB base cs s \<Longrightarrow> reachable D F dB base s"
  unfolding built_def by (auto intro: reachable_execs [OF reachable.new])


lemma upt_0_1: "[0..<1] = [0]"
  by simp

lemma configure_io_mono:
  "configure_io count_dsps base PeakMeter_new \<lparr> midi_count = 0, audio_count = 1 \<rparr>
       \<lparr> midi_count = 0, audio_count = 1 \<rparr>
     = Inr (base \<lparr> midi_count = 0, audio_count = 1 \<rparr> \<lparr> midi_count = 0, audio_count = 1 \<rparr>,
            one_audio\<lparr>active := False, meter_type := {MeterPeak}, kmeter := [0]\<rparr>)"
proof -
  have "metrics_inv (PeakMeter_new\<lparr>current_meters := \<lparr> midi_count = 0, audio_count = 1 \<rparr>\<rparr> :: nat PeakMeter)"
    "units_inv (PeakMeter_new\<lparr>current_meters := \<lparr> midi_count = 0, audio_count = 1 \<rparr>\<rparr> :: nat PeakMeter)"
    by (simp_all add: metrics_inv_def units_inv_def PeakMeter_new_def)
  then show ?thesis
    by (simp add: configure_io_def reset_max_channels_ok)
       (simp add: PeakMeter_new_def one_audio_def counts_0_1 visible_baseline_def
          resized_units_def resized_def count_dsps_def count_dsp_def)
qed

lemma set_type_mono:
  "set_type count_dsps (one_audio\<lparr>active := False, meter_type := {MeterPeak}, kmeter := [0]\<rparr>)
     {MeterK20} = Inr (one_audio\<lparr>active := False, kmeter := [0]\<rparr>)"
  by (simp add: one_audio_def count_dsps_def count_dsp_def set_type_def reset_units_def counts_0_1
      unit_reset_def vec_at_def vec_put_def K_bits_def IEC1_bits_def IEC2_bits_def VU_bits_def)

lemma run_silent_mono:
  "run count_dsps F (one_audio\<lparr>active := False, kmeter := [0]\<rparr>) silent_bufs 1 = Inr one_audio"
  unfolding run_def Let_def count_silent_bufs
  by (simp add: one_audio_def silent_bufs_def counts_0_1 Let_def
      run_audio_body_def unit_process_def vec_at_def vec_put_def count_dsps_def count_dsp_def
      K_bits_def IEC1_bits_def IEC2_bits_def VU_bits_def)

text \<open>The calls that build \<open>one_audio\<close>, \<open>k20_meter\<close>, \<open>midi_stereo\<close>, \<open>captured\<close> and \<open>reflected\<close>.\<close>

lemma built_one_audio:
  "built count_dsps F dB base
     [ConfigureIO \<lparr> midi_count = 0, audio_count = 1 \<rparr> \<lparr> midi_count = 0, audio_count = 1 \<rparr>,
      SetType {MeterK20}, Run silent_bufs 1] one_audio"
  unfolding built_def
  by (simp only: execs.simps exec_def op.case configure_io_mono bindE_Inr snd_conv sum.case
      set_type_mono run_silent_mono list.pred_inject member_call.simps simp_thms)

lemma reachable_one_audio: "reachable count_dsps F dB base one_audio"
  using built_one_audio by (rule built_reachable)

lemma run_loud_1:
  "run count_dsps F (one_audio\<lparr>active := False, kmeter := [0]\<rparr>) example_bufs 1
     = Inr (one_audio\<lparr>peak_signal := [Fin 1]\<rparr>)"
  unfolding run_def Let_def count_example_bufs
  by (simp add: one_audio_def example_bufs_def counts_0_1 Let_def compute_peak_def
      run_audio_body_def unit_process_def vec_at_def vec_put_def count_dsps_def count_dsp_def
      K_bits_def IEC1_bits_def IEC2_bits_def VU_bits_def)

lemma meter_loud_1:
  "meter example_arith decibel 0 (one_audio\<lparr>peak_signal := [Fin 1]\<rparr>)
     = Inr (k20_meter\<lparr>peak_signal := [Fin 0], kmeter := [1]\<rparr>)"
  unfolding meter_def Let_def falloff_0
  by (simp add: one_audio_def k20_meter_def counts_0_1 Let_def audio_meter_falloff_def
      meter_body_def vec_at_def vec_put_def decibel_def minus_infinity_def example_arith_def)

lemma run_loud_2:
  "run count_dsps F (k20_meter\<lparr>peak_signal := [Fin 0], kmeter := [1]\<rparr>) example_bufs 1
     = Inr k20_meter"
  unfolding run_def Let_def count_example_bufs
  by (simp add: k20_meter_def example_bufs_def counts_0_1 Let_def compute_peak_def
      run_audio_body_def unit_process_def vec_at_def vec_put_def count_dsps_def count_dsp_def
      K_bits_def IEC1_bits_def IEC2_bits_def VU_bits_def)

lemma built_k20_meter:
  "built count_dsps example_arith decibel base
     [ConfigureIO \<lparr> midi_count = 0, audio_count = 1 \<rparr> \<lparr> midi_count = 0, audio_count = 1 \<rparr>,
      SetType {MeterK20}, Run example_bufs 1, Meter 0, Run example_bufs 1] k20_meter"
  unfolding built_def
  by (simp only: execs.simps exec_def op.case configure_io_mono bindE_Inr snd_conv sum.case
      set_type_mono run_loud_1 meter_loud_1 run_loud_2 list.pred_inject member_call.simps simp_thms)

lemma reachable_k20_meter: "reachable count_dsps example_arith decibel base k20_meter"
  using built_k20_meter by (rule built_reachable)


lemma built_captured:
  "built count_dsps example_arith dB base
     [ConfigureIO \<lparr> midi_count = 1, audio_count = 2 \<rparr> \<lparr> midi_count = 1, audio_count = 2 \<rparr>,
      Run example_bufs 1] captured"
  unfolding built_def
  by (simp only: execs.simps exec_def op.case configure_io_midi_stereo bindE_Inr snd_conv sum.case
      run_example list.pred_inject member_call.simps simp_thms)

lemma reachable_captured: "reachable count_dsps example_arith dB base captured"
  using built_captured by (rule built_reachable)

lemma reflect_inputs_midi_stereo:
  "reflect_inputs count_dsps midi_stereo \<lparr> midi_count = 0, audio_count = 2 \<rparr>
     = Inr (reflected\<lparr>active := False, peak_signal := [Fin 0, Fin 0, Fin 0]\<rparr>)"
proof -
  have l1: "for_loop [2..<3] reflect_body1 midi_stereo = Inr midi_stereo"
    by (simp add: reflect_body1_def zero_peak_def vec_put_def midi_stereo_def upt_rec)
  have l2: "for_loop [2..<2] (reflect_body2 count_dsps) midi_stereo = Inr midi_stereo"
    by simp
  have n: "n_total \<lparr> midi_count = 0, audio_count = 2 \<rparr> = 2" "n_total (current_meters midi_stereo) = 3"
    "n_audio (current_meters midi_stereo) = 2" "n_audio \<lparr> midi_count = 0, audio_count = 2 \<rparr> = 2"
    by (simp_all add: midi_stereo_def example_counts)
  have m: "metrics_inv (midi_stereo\<lparr>current_meters := \<lparr> midi_count = 0, audio_count = 2 \<rparr>\<rparr>)"
    by (simp add: metrics_inv_def midi_stereo_def)
  have "reflect_inputs count_dsps midi_stereo \<lparr> midi_count = 0, audio_count = 2 \<rparr>
      = reset_max (midi_stereo\<lparr>current_meters := \<lparr> midi_count = 0, audio_count = 2 \<rparr>\<rparr>)"
    unfolding reflect_inputs_def n l1 bindE_Inr l2 ..
  also have "\<dots> = Inr (reflected\<lparr>active := False, peak_signal := [Fin 0, Fin 0, Fin 0]\<rparr>)"
    unfolding reset_max_ok [OF m]
    by (simp add: midi_stereo_def reflected_def visible_baseline_def upt_3 counts_0_2)
  finally show ?thesis .
qed

lemma run_reflected:
  "run count_dsps F (reflected\<lparr>active := False, peak_signal := [Fin 0, Fin 0, Fin 0]\<rparr>) example_bufs 1
     = Inr reflected"
  unfolding run_def Let_def count_example_bufs
  by (simp add: reflected_def example_bufs_def counts_0_2 Let_def compute_peak_def
      run_audio_body_def zero_peak_def vec_at_def vec_put_def upt_0_2 upt_3
      K_bits_def IEC1_bits_def IEC2_bits_def VU_bits_def)

lemma built_reflected:
  "built count_dsps F dB base
     [ConfigureIO \<lparr> midi_count = 1, audio_count = 2 \<rparr> \<lparr> midi_count = 1, audio_count = 2 \<rparr>,
      ReflectInputs \<lparr> midi_count = 0, audio_count = 2 \<rparr>, Run example_bufs 1] reflected"
  unfolding built_def
  by (simp only: execs.simps exec_def op.case configure_io_midi_stereo bindE_Inr snd_conv sum.case
      reflect_inputs_midi_stereo run_reflected list.pred_inject member_call.simps simp_thms)

lemma reachable_reflected: "reachable count_dsps F dB base reflected"
  using built_reflected by (rule built_reachable)

section \<open>The meters the member functions build\<close>

lemma list_all_replicate [simp]: "list_all (\<lambda>x. x = c) (replicate n c)"
  by (simp add: list_all_length)
















lemma baseline_numbers [simp]: "list_all is_number (drop k (visible_baseline nm len))"
  by (simp add: visible_baseline_def list_all_length)




lemma meter_sizes:
  assumes "meter F dB falloff s = Inr s'"
  shows "sizes s' = sizes s \<and> current_meters s' = current_meters s"
proof (cases "\<not> active s \<or> length (visible_peak_power s) \<noteq> length (peak_signal s)
              \<or> length (max_peak_power s) \<noteq> length (peak_signal s)
              \<or> length (max_peak_signal s) \<noteq> length (peak_signal s)")
  case True
  with assms have "s' = s" by (auto simp: meter_def split: if_splits)
  then show ?thesis by simp
next
  case False
  from assms False obtain limit nm mf af
    where loop: "for_loop [0..<limit] (meter_body F dB nm mf af) s = Inr s'"
    by (auto simp: meter_def Let_def)
  show ?thesis
    by (rule for_loop_preserves [OF loop,
          where P = "\<lambda>x. sizes x = sizes s \<and> current_meters x = current_meters s"])
       (auto dest: meter_body_frame)
qed







text \<open>
  The vectors of channel metrics of a meter a program reaches are shorter than
  \<open>2 ^ 32\<close>: their length is 0 or the total of a layout.
\<close>

lemma n_total_less: "n_total c < 2 ^ 32"
  using unsigned_less [of "midi_count c + audio_count c", where ?'a = nat]
  by (simp add: n_total_def)

lemma keeps_max_length: "keeps_max s s' \<Longrightarrow> length (peak_signal s') = length (peak_signal s)"
  by (simp add: keeps_max_def sizes_def)

lemma exec_short:
  assumes "wf s" "length (peak_signal s) < 2 ^ 32" "exec D F dB base s c = Inr s'"
  shows "length (peak_signal s') < 2 ^ 32"
proof (cases c)
  case (Run bufs nf)
  with assms(2,3) show ?thesis by (auto simp: exec_def dest!: run_keeps keeps_max_length)
next
  case Reset
  with assms(2,3) show ?thesis by (auto simp: exec_def dest!: reset_keeps keeps_max_length)
next
  case ResetMax
  from assms(1) have "metrics_inv s" by (simp add: wf_def)
  from assms(3) [unfolded ResetMax exec_def op.case reset_max_ok [OF this]] assms(2)
  show ?thesis by auto
next
  case (ConfigureIO cin cout)
  show ?thesis
  proof (cases "cout = cin")
    case True
    from assms(1)
    have i: "metrics_inv (s\<lparr>current_meters := cin\<rparr>)" "units_inv (s\<lparr>current_meters := cin\<rparr>)"
      by (simp_all add: wf_def metrics_inv_def units_inv_def)
    from assms(3) True ConfigureIO
    have "reset_max_channels D (s\<lparr>current_meters := cin\<rparr>) cin = Inr s'"
      by (auto simp: exec_def configure_io_def bindE_eq_Inr)
    from this [unfolded reset_max_channels_ok [OF i]] n_total_less [of cin] show ?thesis
      by auto
  next
    case False
    with assms ConfigureIO show ?thesis by (simp add: exec_def configure_io_def)
  qed
next
  case (ReflectInputs cin)
  with assms(3) have "reflect_inputs D s cin = Inr s'" by (simp add: exec_def)
  then obtain s1 s2
    where s1: "for_loop [n_total cin..<n_total (current_meters s)] reflect_body1 s = Inr s1"
      and s2: "for_loop [n_audio cin..<n_audio (current_meters s1)] (reflect_body2 D) s1 = Inr s2"
      and s3: "reset_max (s2\<lparr>current_meters := cin\<rparr>) = Inr s'"
    by (auto simp: reflect_inputs_def bindE_eq_Inr)
  have k1: "keeps_max s s1" using s1 by (rule for_loop_keeps) (rule reflect_body1_keeps)
  have k2: "keeps_max s1 s2" using s2 by (rule for_loop_keeps) (rule reflect_body2_keeps)
  from k1 k2 assms(1) have "wf s2" by (blast intro: keeps_max_wf)
  then have "metrics_inv (s2\<lparr>current_meters := cin\<rparr>)"
    by (simp add: wf_def metrics_inv_def)
  from s3 [unfolded reset_max_ok [OF this]] keeps_max_length [OF k1] keeps_max_length [OF k2]
    assms(2)
  show ?thesis by auto
next
  case (ResetMaxChannels chn)
  from assms(1) have i: "metrics_inv s" "units_inv s" by (simp_all add: wf_def)
  from assms(3) [unfolded ResetMaxChannels exec_def op.case reset_max_channels_ok [OF i]]
    n_total_less [of chn]
  show ?thesis by auto
next
  case (Meter falloff)
  with assms(3) have "meter F dB falloff s = Inr s'" by (simp add: exec_def)
  from meter_sizes [OF this] assms(2) show ?thesis by (simp add: sizes_def)
next
  case (SetType t)
  with assms(2,3) show ?thesis by (auto simp: exec_def dest!: set_type_keeps keeps_max_length)
next
  case (SetPendingActive b)
  with assms(2,3) show ?thesis by (auto simp: exec_def)
qed

lemma reachable_short: "reachable D F dB base s \<Longrightarrow> length (peak_signal s) < 2 ^ 32"
proof (induction rule: reachable.induct)
  case new
  show ?case by (simp add: PeakMeter_new_def)
next
  case (step s c s')
  from step.hyps(1) have "wf s" by (rule reachable_wf)
  then show ?case using step.IH step.hyps(2) by (rule exec_short)
qed

section \<open>The claims\<close>

subsection \<open>Type selection\<close>

text \<open>
  Claim C1, as the code has it. A call \<open>set_type t\<close> with \<open>t\<close> different from the current
  mask, on a meter whose unit vectors hold at least the configured number of audio
  channels, stores \<open>t\<close> and resets the units (of the configured audio channels) of every
  family that has a bit in \<open>t\<close>, whether or not the family had a bit in the old mask. The
  units of a family with no bit in \<open>t\<close> and every other field are as they were.
\<close>

theorem set_type_resets_selected:
  assumes "t \<noteq> meter_type s"
    and "n_audio (current_meters s) \<le> length (kmeter s)"
    and "n_audio (current_meters s) \<le> length (iec1meter s)"
    and "n_audio (current_meters s) \<le> length (iec2meter s)"
    and "n_audio (current_meters s) \<le> length (vumeter s)"
  shows "set_type D s t =
     Inr (s\<lparr>meter_type := t,
            kmeter := (if t \<inter> K_bits \<noteq> {}
                       then reset_first (Kmeterdsp D) (n_audio (current_meters s)) (kmeter s)
                       else kmeter s),
            iec1meter := (if t \<inter> IEC1_bits \<noteq> {}
                       then reset_first (Iec1ppmdsp D) (n_audio (current_meters s)) (iec1meter s)
                       else iec1meter s),
            iec2meter := (if t \<inter> IEC2_bits \<noteq> {}
                       then reset_first (Iec2ppmdsp D) (n_audio (current_meters s)) (iec2meter s)
                       else iec2meter s),
            vumeter := (if t \<inter> VU_bits \<noteq> {}
                       then reset_first (Vumeterdsp D) (n_audio (current_meters s)) (vumeter s)
                       else vumeter s)\<rparr>)"
  using assms by (simp add: set_type_def Let_def reset_units_ok)

text \<open>
  The theorem at the meter \<open>one_audio\<close> and the mask \<^verbatim>\<open>MeterK20 | MeterVU\<close>: the K unit
  and the VU unit are reset (the VU unit was fed no block and is as it was), the IEC
  units are not.
\<close>

theorem set_type_resets_selected_witness:
  "{MeterK20, MeterVU} \<noteq> meter_type one_audio
   \<and> n_audio (current_meters one_audio) \<le> length (kmeter one_audio)
   \<and> n_audio (current_meters one_audio) \<le> length (iec1meter one_audio)
   \<and> n_audio (current_meters one_audio) \<le> length (iec2meter one_audio)
   \<and> n_audio (current_meters one_audio) \<le> length (vumeter one_audio)
   \<and> set_type count_dsps one_audio {MeterK20, MeterVU} =
       Inr (one_audio\<lparr>meter_type := {MeterK20, MeterVU}, kmeter := [0]\<rparr>)"
  using set_type_resets_selected [of "{MeterK20, MeterVU}" one_audio count_dsps]
  by (simp add: one_audio_def count_dsps_def count_dsp_def reset_first_def tab_def counts_0_1
      K_bits_def IEC1_bits_def IEC2_bits_def VU_bits_def)

text \<open>
  Claim C1, as it is stated, fails. The meter \<open>one_audio\<close>, which a program reaches,
  has the mask \<^verbatim>\<open>MeterK20\<close>; the new mask \<^verbatim>\<open>MeterK20 | MeterVU\<close> differs from it and
  selects the K family as the old one does. The call resets the K unit all the same:
  its state 1 becomes 0.
\<close>

theorem set_type_counterexample:
  "reachable count_dsps example_arith decibel (\<lambda>a b. True) one_audio
   \<and> meter_type one_audio \<noteq> {MeterK20, MeterVU}
   \<and> (meter_type one_audio \<inter> K_bits \<noteq> {}) = ({MeterK20, MeterVU} \<inter> K_bits \<noteq> {})
   \<and> kmeter one_audio = [1]
   \<and> set_type count_dsps one_audio {MeterK20, MeterVU} =
       Inr (one_audio\<lparr>meter_type := {MeterK20, MeterVU}, kmeter := [0]\<rparr>)"
  using reachable_one_audio [of example_arith decibel "\<lambda>a b. True"]
  by (simp add: one_audio_def count_dsps_def count_dsp_def set_type_def reset_units_def counts_0_1
      unit_reset_def vec_at_def vec_put_def K_bits_def IEC1_bits_def IEC2_bits_def VU_bits_def)

subsection \<open>The maxima\<close>

text \<open>
  Claim C2. \<open>s\<close> is a meter a program can reach and \<open>cs\<close> a sequence of calls of
  \<^verbatim>\<open>run\<close>, \<^verbatim>\<open>meter\<close>, \<^verbatim>\<open>reset\<close>, \<^verbatim>\<open>set_type\<close> and of activations, none of
  which resets the maxima, that ends without an error in the meter \<open>s'\<close>. Then for
  every channel \<open>n\<close> the maximum signal and the maximum power of \<open>s'\<close> are at least those
  of \<open>s\<close>; and \<^verbatim>\<open>reset_max\<close> on \<open>s'\<close> ends without an error and leaves the maximum
  signal 0 and the maximum power minus infinity.
\<close>

theorem maxima_monotone:
  assumes "reachable D F dB base s" and "list_all no_max_reset cs"
    and "execs D F dB base s cs = Inr s'" and "n < length (max_peak_signal s)"
  shows "max_peak_signal s ! n \<le> max_peak_signal s' ! n
     \<and> max_peak_power s ! n \<le> max_peak_power s' ! n
     \<and> (\<exists>s''. reset_max s' = Inr s'' \<and> max_peak_signal s'' ! n = Fin 0
            \<and> max_peak_power s'' ! n = MInf)"
proof -
  from assms(1) have wf: "wf s" by (rule reachable_wf)
  then have k: "meter_keeps s s'" using assms(2,3) by (rule execs_meter_keeps)
  from wf assms(4) have n: "n < length (max_peak_power s)" "n < length (peak_signal s)"
    by (simp_all add: wf_def metrics_inv_def)
  from k have le: "list_all2 (\<le>) (max_peak_signal s) (max_peak_signal s')"
    "list_all2 (\<le>) (max_peak_power s) (max_peak_power s')"
    by (simp_all add: meter_keeps_def)
  have "wf s'" using k wf by (rule meter_keeps_wf)
  then have m: "metrics_inv s'" by (simp add: wf_def)
  from k n have "n < length (peak_signal s')" by (simp add: meter_keeps_def sizes_def)
  then have "\<exists>s''. reset_max s' = Inr s'' \<and> max_peak_signal s'' ! n = Fin 0
            \<and> max_peak_power s'' ! n = MInf"
    by (simp add: reset_max_ok [OF m])
  then show ?thesis
    using list_all2_nthD [OF le(1) assms(4)] list_all2_nthD [OF le(2) n(1)] by simp
qed

text \<open>
  The theorem at the meter \<open>midi_stereo\<close>, a Capture of \<open>example_bufs\<close> and a Reduction:
  the maximum signal of channel 1 goes from 0 to 1.
\<close>

theorem maxima_monotone_witness:
  "reachable count_dsps example_arith decibel (\<lambda>a b. True) midi_stereo
   \<and> list_all no_max_reset [Run example_bufs 1, Meter (1 / 2)]
   \<and> execs count_dsps example_arith decibel (\<lambda>a b. True) midi_stereo
        [Run example_bufs 1, Meter (1 / 2)] = Inr after_tick
   \<and> max_peak_signal midi_stereo ! 1 = Fin 0 \<and> max_peak_signal after_tick ! 1 = Fin 1
   \<and> max_peak_signal midi_stereo ! 1 \<le> max_peak_signal after_tick ! 1
   \<and> max_peak_power midi_stereo ! 1 \<le> max_peak_power after_tick ! 1"
proof -
  have r: "reachable count_dsps example_arith decibel (\<lambda>a b. True) midi_stereo"
    by (rule reachable_midi_stereo)
  have e: "execs count_dsps example_arith decibel (\<lambda>a b. True) midi_stereo
        [Run example_bufs 1, Meter (1 / 2)] = Inr after_tick"
    by (simp only: execs.simps exec_def op.case run_example meter_example sum.case)
  have l: "list_all no_max_reset [Run example_bufs 1, Meter (1 / 2)]" by simp
  have n: "1 < length (max_peak_signal midi_stereo)" by (simp add: midi_stereo_def)
  from maxima_monotone [OF r l e n] r l e show ?thesis
    by (simp add: midi_stereo_def after_tick_def captured_def)
qed

subsection \<open>The falloff of an audio channel\<close>




subsection \<open>The skipped tick\<close>

text \<open>
  Claim C4, as the code has it. When the four vectors of channel metrics do not all
  have the same length, \<^verbatim>\<open>meter\<close> returns without an error and leaves the meter as it
  was. The test compares the vectors with each other only; their length is not
  compared with the layout.
\<close>

theorem meter_skips_unequal_sizes:
  assumes "length (visible_peak_power s) \<noteq> length (peak_signal s)
     \<or> length (max_peak_power s) \<noteq> length (peak_signal s)
     \<or> length (max_peak_signal s) \<noteq> length (peak_signal s)"
  shows "meter F dB falloff s = Inr s"
  using assms by (auto simp: meter_def)

text \<open>The theorem at the meter \<open>resizing\<close>, which is active and holds a raw value.\<close>

theorem meter_skips_unequal_sizes_witness:
  "length (visible_peak_power resizing) \<noteq> length (peak_signal resizing)
   \<and> active resizing \<and> peak_signal resizing = [Fin 1, Fin 0, Fin 0]
   \<and> meter example_arith decibel 1 resizing = Inr resizing"
  using meter_skips_unequal_sizes [of resizing example_arith decibel 1]
  by (simp add: resizing_def reflected_def)

text \<open>
  Claim C4, as it is stated, fails. The vectors of the meter \<open>reflected\<close>, which the
  member functions build with \<^verbatim>\<open>reflect_inputs\<close>, have the same length 3, which is
  not the length 2 of its layout; \<^verbatim>\<open>meter\<close> does not skip the call but changes the
  raw value, the visible level and the maxima of the first channel.
\<close>

theorem meter_layout_counterexample:
  "built count_dsps example_arith decibel (\<lambda>a b. True)
     [ConfigureIO \<lparr> midi_count = 1, audio_count = 2 \<rparr> \<lparr> midi_count = 1, audio_count = 2 \<rparr>,
      ReflectInputs \<lparr> midi_count = 0, audio_count = 2 \<rparr>, Run example_bufs 1] reflected
   \<and> length (peak_signal reflected) = 3 \<and> length (visible_peak_power reflected) = 3
   \<and> length (max_peak_signal reflected) = 3 \<and> length (max_peak_power reflected) = 3
   \<and> n_total (current_meters reflected) = 2
   \<and> meter example_arith decibel 0 reflected =
       Inr (reflected\<lparr>peak_signal := [Fin 0, Fin 0, Fin 0],
                      visible_peak_power := [Num (Fin 0), Num MInf, Num MInf],
                      max_peak_signal := [Fin 1, Fin 0, Fin 0],
                      max_peak_power := [Fin 0, MInf, MInf]\<rparr>)
   \<and> meter example_arith decibel 0 reflected \<noteq> Inr reflected"
proof -
  have m: "meter example_arith decibel 0 reflected =
       Inr (reflected\<lparr>peak_signal := [Fin 0, Fin 0, Fin 0],
                      visible_peak_power := [Num (Fin 0), Num MInf, Num MInf],
                      max_peak_signal := [Fin 1, Fin 0, Fin 0],
                      max_peak_power := [Fin 0, MInf, MInf]\<rparr>)"
    unfolding meter_def Let_def falloff_0
    by (simp add: reflected_def counts_0_2 Let_def audio_meter_falloff_def upt_0_2
        meter_body_def vec_at_def vec_put_def decibel_def minus_infinity_def)
  have "meter example_arith decibel 0 reflected \<noteq> Inr reflected"
    unfolding m by (simp add: reflected_def)
  with m built_reflected [of example_arith decibel "\<lambda>a b. True"] show ?thesis
    by (simp add: reflected_def counts_0_2)
qed

subsection \<open>Reconfiguration\<close>

text \<open>
  Claim C5, as the code has it. On a meter a program can reach,
  \<^verbatim>\<open>reset_max_channels (chn)\<close> ends without an error. After it each of the four
  vectors of channel metrics has the length \<open>n_total chn\<close>, the total of the layout as
  the 32 bits of \<^verbatim>\<open>limit\<close> hold it: \<open>n_midi chn + n_audio chn\<close> modulo \<open>2 ^ 32\<close>.
  Each of the four vectors of units has the length \<open>n_audio chn\<close>; every raw value and
  every maximum signal is 0, every maximum power is minus infinity, and the visible
  level is 0 for a MIDI channel and minus infinity for any other. The units are the
  old ones cut or filled with fresh units, all reset. \<open>cur\<close> is the layout the meter
  holds when the call is made: \<^verbatim>\<open>configure_io\<close> stores the accepted layout before
  the call (\<open>cur = chn\<close>), a direct call finds \<open>cur = current_meters s\<close>; the MIDI
  channels are those of \<open>cur\<close>.
\<close>

theorem reset_max_channels_resizes:
  assumes "reachable D F dB base s"
  shows "\<exists>s'. reset_max_channels D (s\<lparr>current_meters := cur\<rparr>) chn = Inr s'
     \<and> n_total chn = (n_midi chn + n_audio chn) mod 2 ^ 32
     \<and> length (peak_signal s') = n_total chn
     \<and> length (visible_peak_power s') = n_total chn
     \<and> length (max_peak_signal s') = n_total chn
     \<and> length (max_peak_power s') = n_total chn
     \<and> length (kmeter s') = n_audio chn \<and> length (iec1meter s') = n_audio chn
     \<and> length (iec2meter s') = n_audio chn \<and> length (vumeter s') = n_audio chn
     \<and> peak_signal s' = replicate (n_total chn) (Fin 0)
     \<and> max_peak_signal s' = replicate (n_total chn) (Fin 0)
     \<and> max_peak_power s' = replicate (n_total chn) MInf
     \<and> visible_peak_power s' = visible_baseline (min (n_total chn) (n_midi cur)) (n_total chn)
     \<and> kmeter s' = resized_units (Kmeterdsp D) (n_audio chn) (kmeter s)
     \<and> iec1meter s' = resized_units (Iec1ppmdsp D) (n_audio chn) (iec1meter s)
     \<and> iec2meter s' = resized_units (Iec2ppmdsp D) (n_audio chn) (iec2meter s)
     \<and> vumeter s' = resized_units (Vumeterdsp D) (n_audio chn) (vumeter s)"
proof -
  from assms have "wf s" by (rule reachable_wf)
  then have "metrics_inv (s\<lparr>current_meters := cur\<rparr>)" "units_inv (s\<lparr>current_meters := cur\<rparr>)"
    by (simp_all add: wf_def metrics_inv_def units_inv_def)
  moreover have "n_total chn = (n_midi chn + n_audio chn) mod 2 ^ 32"
    by (simp add: n_total_def n_midi_def n_audio_def unat_word_ariths)
  ultimately show ?thesis
    by (simp add: reset_max_channels_ok)
       (simp add: visible_baseline_def resized_units_def)
qed

text \<open>
  The theorem at the meter \<open>midi_stereo\<close> and the accepted layout of two MIDI and two
  audio channels.
\<close>

theorem reset_max_channels_resizes_witness:
  "reachable count_dsps example_arith id (\<lambda>a b. True) midi_stereo
   \<and> (\<exists>s'. reset_max_channels count_dsps
             (midi_stereo\<lparr>current_meters := \<lparr> midi_count = 2, audio_count = 2 \<rparr>\<rparr>)
             \<lparr> midi_count = 2, audio_count = 2 \<rparr> = Inr s'
      \<and> peak_signal s' = [Fin 0, Fin 0, Fin 0, Fin 0]
      \<and> visible_peak_power s' = [Num (Fin 0), Num (Fin 0), Num MInf, Num MInf]
      \<and> max_peak_signal s' = [Fin 0, Fin 0, Fin 0, Fin 0]
      \<and> max_peak_power s' = [MInf, MInf, MInf, MInf]
      \<and> length (kmeter s') = 2 \<and> length (iec1meter s') = 2
      \<and> length (iec2meter s') = 2 \<and> length (vumeter s') = 2)"
proof -
  have u: "[0..<4] = [0, 1, 2, 3]" by (simp add: upt_rec)
  have r: "replicate 4 x = [x, x, x, x]" for x :: cfloat by (simp add: numeral_eq_Suc)
  from reset_max_channels_resizes [OF reachable_midi_stereo [of example_arith id "\<lambda>a b. True"],
      of "\<lparr> midi_count = 2, audio_count = 2 \<rparr>" "\<lparr> midi_count = 2, audio_count = 2 \<rparr>"]
  obtain s' where "reset_max_channels count_dsps
             (midi_stereo\<lparr>current_meters := \<lparr> midi_count = 2, audio_count = 2 \<rparr>\<rparr>)
             \<lparr> midi_count = 2, audio_count = 2 \<rparr> = Inr s'"
    and "peak_signal s' = replicate 4 (Fin 0)" "max_peak_signal s' = replicate 4 (Fin 0)"
    and "max_peak_power s' = replicate 4 MInf"
    and "visible_peak_power s' = visible_baseline (min 4 2) 4"
    and "length (kmeter s') = 2" "length (iec1meter s') = 2"
    and "length (iec2meter s') = 2" "length (vumeter s') = 2"
    unfolding counts_2_2 by blast
  then show ?thesis
    using reachable_midi_stereo [of example_arith id "\<lambda>a b. True"]
    by (simp add: r visible_baseline_def u)
qed

text \<open>
  Claim C5, as it is stated, fails. \<^verbatim>\<open>configure_io\<close> accepts the layout of
  \<open>2 ^ 32 - 1\<close> MIDI channels and one audio channel on a new meter. The total of the
  layout is \<open>2 ^ 32\<close>; \<^verbatim>\<open>limit\<close> holds 0, and the call leaves the four vectors of
  channel metrics empty and the four vectors of units with one unit.
\<close>

theorem reset_max_channels_counterexample:
  "n_midi wide_layout = 4294967295 \<and> n_audio wide_layout = 1
   \<and> n_midi wide_layout + n_audio wide_layout = 4294967296
   \<and> configure_io count_dsps Processor_configure_io PeakMeter_new wide_layout wide_layout
       = Inr (True, wide_meter)
   \<and> reset_max_channels count_dsps (PeakMeter_new\<lparr>current_meters := wide_layout\<rparr>) wide_layout
       = Inr wide_meter
   \<and> length (peak_signal wide_meter) = 0 \<and> length (visible_peak_power wide_meter) = 0
   \<and> length (max_peak_signal wide_meter) = 0 \<and> length (max_peak_power wide_meter) = 0
   \<and> length (kmeter wide_meter) = 1"
proof -
  have "metrics_inv (PeakMeter_new\<lparr>current_meters := wide_layout\<rparr> :: nat PeakMeter)"
    "units_inv (PeakMeter_new\<lparr>current_meters := wide_layout\<rparr> :: nat PeakMeter)"
    by (simp_all add: metrics_inv_def units_inv_def PeakMeter_new_def)
  then have r: "reset_max_channels count_dsps (PeakMeter_new\<lparr>current_meters := wide_layout\<rparr>)
       wide_layout = Inr wide_meter"
    by (simp add: reset_max_channels_ok)
       (simp add: PeakMeter_new_def wide_meter_def counts_wide visible_baseline_def
          resized_units_def resized_def count_dsps_def count_dsp_def)
  then show ?thesis
    by (simp add: configure_io_def Processor_configure_io_def counts_wide)
       (simp add: wide_meter_def)
qed

subsection \<open>The layout is one to one\<close>

text \<open>
  Claim C6. \<^verbatim>\<open>configure_io (in, out)\<close> with \<open>out \<noteq> in\<close> returns \<^verbatim>\<open>false\<close> and
  leaves the meter as it was, whatever the meter and whatever the base class. With
  \<open>out = in\<close>, on a meter a program can reach, it stores the layout, resizes and resets
  the vectors by \<^verbatim>\<open>reset_max_channels\<close>, and returns what the base class's
  \<^verbatim>\<open>configure_io\<close> returns, which the spec has accept: \<^verbatim>\<open>true\<close>. So the value
  returned is \<^verbatim>\<open>true\<close> exactly when \<open>out = in\<close>.
\<close>

theorem configure_io_one_to_one:
  "(cout \<noteq> cin \<longrightarrow> configure_io D base s cin cout = Inr (False, s))
   \<and> (reachable D F dB base s \<longrightarrow>
        (\<exists>r s'. configure_io D Processor_configure_io s cin cout = Inr (r, s')
           \<and> r = (cout = cin))
        \<and> (\<exists>s'. configure_io D Processor_configure_io s cin cin = Inr (True, s')
           \<and> current_meters s' = cin
           \<and> reset_max_channels D (s\<lparr>current_meters := cin\<rparr>) cin = Inr s'
           \<and> length (peak_signal s') = n_total cin
           \<and> length (kmeter s') = n_audio cin))"
proof (intro conjI impI)
  assume "cout \<noteq> cin"
  then show "configure_io D base s cin cout = Inr (False, s)"
    by (simp add: configure_io_def)
next
  assume "reachable D F dB base s"
  then have "wf s" by (rule reachable_wf)
  then have i: "metrics_inv (s\<lparr>current_meters := cin\<rparr>)" "units_inv (s\<lparr>current_meters := cin\<rparr>)"
    by (simp_all add: wf_def metrics_inv_def units_inv_def)
  then show "\<exists>s'. configure_io D Processor_configure_io s cin cin = Inr (True, s')
           \<and> current_meters s' = cin
           \<and> reset_max_channels D (s\<lparr>current_meters := cin\<rparr>) cin = Inr s'
           \<and> length (peak_signal s') = n_total cin
           \<and> length (kmeter s') = n_audio cin"
    by (simp add: configure_io_def reset_max_channels_ok Processor_configure_io_def)
       (simp add: resized_units_def)
  from i show "\<exists>r s'. configure_io D Processor_configure_io s cin cout = Inr (r, s')
           \<and> r = (cout = cin)"
    by (simp add: configure_io_def reset_max_channels_ok Processor_configure_io_def)
qed

text \<open>
  The theorem at the meter \<open>midi_stereo\<close>: one audio channel in and two out is refused,
  one in and one out is applied.
\<close>

theorem configure_io_one_to_one_witness:
  "\<lparr> midi_count = 0, audio_count = 2 \<rparr> \<noteq> \<lparr> midi_count = 0, audio_count = 1 \<rparr>
   \<and> configure_io count_dsps Processor_configure_io midi_stereo
        \<lparr> midi_count = 0, audio_count = 1 \<rparr> \<lparr> midi_count = 0, audio_count = 2 \<rparr>
        = Inr (False, midi_stereo)
   \<and> reachable count_dsps example_arith id Processor_configure_io midi_stereo
   \<and> (\<exists>s'. configure_io count_dsps Processor_configure_io midi_stereo
               \<lparr> midi_count = 0, audio_count = 1 \<rparr> \<lparr> midi_count = 0, audio_count = 1 \<rparr> = Inr (True, s')
         \<and> current_meters s' = \<lparr> midi_count = 0, audio_count = 1 \<rparr>
         \<and> length (peak_signal s') = 1 \<and> length (kmeter s') = 1)"
  using configure_io_one_to_one [of "\<lparr> midi_count = 0, audio_count = 2 \<rparr>"
      "\<lparr> midi_count = 0, audio_count = 1 \<rparr>" count_dsps Processor_configure_io midi_stereo
      example_arith id]
    reachable_midi_stereo [of example_arith id Processor_configure_io]
  by (auto simp: counts_0_1)

subsection \<open>Capture of an audio block\<close>




subsection \<open>Capture of MIDI events\<close>




subsection \<open>The query\<close>

text \<open>
  Claim C9. \<^verbatim>\<open>meter_level (n, type)\<close> returns a value for every index and every type,
  never an error. For a type of a ballistics family (K, IEC1, IEC2, VU) the value is
  the reading in dB of the unit \<open>n - n_midi\<close> of that family when \<open>n\<close> lies in the audio
  range of the family's vector, and minus infinity for every other index. For
  \<^verbatim>\<open>MeterPeak\<close>, \<^verbatim>\<open>MeterMaxSignal\<close> and any other type it is the stored value
  of channel \<open>n\<close>, and minus infinity when \<open>n\<close> is outside the vector.
\<close>

theorem meter_level_total:
  "meter_level dB D s n t = Inr
     (if t = {MeterKrms} \<or> t = {MeterK20} \<or> t = {MeterK14} \<or> t = {MeterK12}
      then Num (family_level dB (Kmeterdsp D) (kmeter s) (n_midi (current_meters s)) n)
      else if t = {MeterIEC1DIN} \<or> t = {MeterIEC1NOR}
      then Num (family_level dB (Iec1ppmdsp D) (iec1meter s) (n_midi (current_meters s)) n)
      else if t = {MeterIEC2BBC} \<or> t = {MeterIEC2EBU}
      then Num (family_level dB (Iec2ppmdsp D) (iec2meter s) (n_midi (current_meters s)) n)
      else if t = {MeterVU}
      then Num (family_level dB (Vumeterdsp D) (vumeter s) (n_midi (current_meters s)) n)
      else if t = {MeterPeak}
      then (if n < length (visible_peak_power s) then visible_peak_power s ! n else Num MInf)
      else if t = {MeterMaxSignal}
      then Num (if n < length (max_peak_signal s) then max_peak_signal s ! n else MInf)
      else Num (if n < length (max_peak_power s) then max_peak_power s ! n else MInf))"
  by (simp add: meter_level_def unit_level_ok peak_power_def vec_at_def minus_infinity_def)

subsection \<open>The unit vectors\<close>

text \<open>
  Claim C10. On every meter a program can reach the four vectors of units have the
  same length. So the loop of \<^verbatim>\<open>reset\<close>, which runs to the size of \<^verbatim>\<open>_kmeter\<close>
  and indexes all four, stays inside them and resets every unit; and the loop of the
  destructor, which runs while \<^verbatim>\<open>_kmeter\<close> is not empty and pops all four, ends with
  the four vectors empty.
\<close>

theorem unit_vectors_in_lockstep:
  assumes "reachable D F dB base s"
  shows "length (iec1meter s) = length (kmeter s) \<and> length (iec2meter s) = length (kmeter s)
     \<and> length (vumeter s) = length (kmeter s)
     \<and> reset D s =
         Inr (s\<lparr>peak_signal := replicate (length (peak_signal s)) (Fin 0),
                kmeter := map (dsp_reset (Kmeterdsp D)) (kmeter s),
                iec1meter := map (dsp_reset (Iec1ppmdsp D)) (iec1meter s),
                iec2meter := map (dsp_reset (Iec2ppmdsp D)) (iec2meter s),
                vumeter := map (dsp_reset (Vumeterdsp D)) (vumeter s)\<rparr>)
     \<and> PeakMeter_delete s = Inr (s\<lparr>kmeter := [], iec1meter := [], iec2meter := [], vumeter := []\<rparr>)"
proof -
  from assms have u: "units_inv s" by (auto dest: reachable_wf simp: wf_def)
  then show ?thesis
    by (simp add: reset_ok PeakMeter_delete_def shrink_units_ok) (simp add: units_inv_def)
qed

text \<open>The theorem at the meter \<open>midi_stereo\<close>.\<close>

theorem unit_vectors_in_lockstep_witness:
  "reachable count_dsps example_arith id (\<lambda>a b. True) midi_stereo
   \<and> length (kmeter midi_stereo) = 2 \<and> length (iec1meter midi_stereo) = 2
   \<and> length (iec2meter midi_stereo) = 2 \<and> length (vumeter midi_stereo) = 2
   \<and> reset count_dsps midi_stereo = Inr midi_stereo
   \<and> PeakMeter_delete midi_stereo =
       Inr (midi_stereo\<lparr>kmeter := [], iec1meter := [], iec2meter := [], vumeter := []\<rparr>)"
  using unit_vectors_in_lockstep [OF reachable_midi_stereo [of example_arith id "\<lambda>a b. True"]]
    reachable_midi_stereo [of example_arith id "\<lambda>a b. True"]
  by (simp add: midi_stereo_def count_dsps_def count_dsp_def numeral_3_eq_3)

end
